theory Spec2Isabelle
  imports Main
begin

section \<open>Data model\<close>

text \<open>
  The payload types that the two managers only copy around (volume, running
  applications, session requests, bridge info, media status, sender messages) are
  declared outside the files modelled here; they are carried as opaque values.
\<close>

type_synonym Opaque = string
type_synonym Volume = Opaque
type_synonym ReceiverApplication = Opaque
type_synonym SessionRequest = Opaque
type_synonym BridgeInfo = Opaque
type_synonym MediaStatus = Opaque

text \<open>
  \<^verbatim>\<open>ReceiverStatus\<close>: the three scalar fields are overwritten on every status update,
  \<^verbatim>\<open>applications\<close> may be missing from an update.
\<close>

record ReceiverStatus =
  isActiveInput :: "bool option"
  isStandBy :: "bool option"
  volume :: Volume
  applications :: "ReceiverApplication list option"

text \<open>
  \<^verbatim>\<open>ReceiverDevice\<close>: \<^verbatim>\<open>id\<close> is written \<open>dev_id\<close> (\<open>id\<close> is the identity function of
  HOL); \<open>dev_info\<close> stands for the remaining fields (name, host, port), which the
  managers never read.
\<close>

record ReceiverDevice =
  dev_id :: string
  dev_info :: Opaque
  status :: "ReceiverStatus option"

datatype ReceiverSelectionActionType = Cast | Stop

datatype ReceiverSelectorMediaType = App | Tab | Screen | File

record ReceiverSelection =
  actionType :: ReceiverSelectionActionType
  mediaType :: "ReceiverSelectorMediaType option"
  receiverDevice :: ReceiverDevice
  filePath :: "string option"

subsection \<open>Messages\<close>

text \<open>
  \<^verbatim>\<open>Message\<close> of messaging.ts is a union indexed by the subject: one constructor per
  subject of \<^verbatim>\<open>ExtMessageDefinitions\<close> and \<^verbatim>\<open>AppMessageDefinitions\<close>, with the
  subject's payload as arguments.
\<close>

datatype (plugins only: code size) Message =
    PopupInit "string option" "(string \<times> int \<times> int) option"
  | PopupUpdate "ReceiverDevice list" "ReceiverSelectorMediaType option" "ReceiverSelectorMediaType option"
  | PopupClose
  | ReceiverSelectorSelected ReceiverSelection
  | ReceiverSelectorStop ReceiverSelection
  | MainSelectReceiver SessionRequest
  | CastSelectReceiverSelected ReceiverSelection
  | CastSelectReceiverStopped ReceiverSelection
  | CastSelectReceiverCancelled
  | MainCloseReceiverSelector
  | MainInitializeCast string
  | CastInitialized BridgeInfo
  | CastReceiverDeviceUp ReceiverDevice
  | CastReceiverDeviceDown string
  | CastLaunchApp ReceiverDevice
  | BridgeGetInfo string
  | BridgeGetInfoCompat string
  | BridgeStartDiscovery bool
  | MainReceiverDeviceUp string ReceiverDevice
  | MainReceiverDeviceDown string
  | MainReceiverDeviceStatusUpdated string ReceiverStatus
  | MainReceiverDeviceMediaStatusUpdated string MediaStatus
  | BridgeCreateCastSession string ReceiverDevice
  | BridgeStopCastSession ReceiverDevice
  | CastSessionCreated Opaque
  | CastSessionUpdated Opaque
  | CastSessionStopped string
  | BridgeSendCastReceiverMessage string Opaque string
  | BridgeSendCastSessionMessage string string Opaque string
  | CastReceivedSessionMessage string string string
  | CastImplSendMessage string string "string option"
  | BridgeStartMediaServer string int
  | MediaCastMediaServerStarted string "string list" string
  | BridgeStopMediaServer
  | MediaCastMediaServerStopped
  | MediaCastMediaServerError string

primrec subject :: "Message \<Rightarrow> string" where
  "subject (PopupInit _ _) = ''popup:init''"
| "subject (PopupUpdate _ _ _) = ''popup:update''"
| "subject PopupClose = ''popup:close''"
| "subject (ReceiverSelectorSelected _) = ''receiverSelector:selected''"
| "subject (ReceiverSelectorStop _) = ''receiverSelector:stop''"
| "subject (MainSelectReceiver _) = ''main:selectReceiver''"
| "subject (CastSelectReceiverSelected _) = ''cast:selectReceiver/selected''"
| "subject (CastSelectReceiverStopped _) = ''cast:selectReceiver/stopped''"
| "subject CastSelectReceiverCancelled = ''cast:selectReceiver/cancelled''"
| "subject MainCloseReceiverSelector = ''main:closeReceiverSelector''"
| "subject (MainInitializeCast _) = ''main:initializeCast''"
| "subject (CastInitialized _) = ''cast:initialized''"
| "subject (CastReceiverDeviceUp _) = ''cast:receiverDeviceUp''"
| "subject (CastReceiverDeviceDown _) = ''cast:receiverDeviceDown''"
| "subject (CastLaunchApp _) = ''cast:launchApp''"
| "subject (BridgeGetInfo _) = ''bridge:getInfo''"
| "subject (BridgeGetInfoCompat _) = ''bridge:/getInfo''"
| "subject (BridgeStartDiscovery _) = ''bridge:startDiscovery''"
| "subject (MainReceiverDeviceUp _ _) = ''main:receiverDeviceUp''"
| "subject (MainReceiverDeviceDown _) = ''main:receiverDeviceDown''"
| "subject (MainReceiverDeviceStatusUpdated _ _) = ''main:receiverDeviceStatusUpdated''"
| "subject (MainReceiverDeviceMediaStatusUpdated _ _) = ''main:receiverDeviceMediaStatusUpdated''"
| "subject (BridgeCreateCastSession _ _) = ''bridge:createCastSession''"
| "subject (BridgeStopCastSession _) = ''bridge:stopCastSession''"
| "subject (CastSessionCreated _) = ''cast:sessionCreated''"
| "subject (CastSessionUpdated _) = ''cast:sessionUpdated''"
| "subject (CastSessionStopped _) = ''cast:sessionStopped''"
| "subject (BridgeSendCastReceiverMessage _ _ _) = ''bridge:sendCastReceiverMessage''"
| "subject (BridgeSendCastSessionMessage _ _ _ _) = ''bridge:sendCastSessionMessage''"
| "subject (CastReceivedSessionMessage _ _ _) = ''cast:receivedSessionMessage''"
| "subject (CastImplSendMessage _ _ _) = ''cast:impl_sendMessage''"
| "subject (BridgeStartMediaServer _ _) = ''bridge:startMediaServer''"
| "subject (MediaCastMediaServerStarted _ _ _) = ''mediaCast:mediaServerStarted''"
| "subject BridgeStopMediaServer = ''bridge:stopMediaServer''"
| "subject MediaCastMediaServerStopped = ''mediaCast:mediaServerStopped''"
| "subject (MediaCastMediaServerError _) = ''mediaCast:mediaServerError''"

subsection \<open>Ports, instances and the observable effects\<close>

type_synonym port_ref = nat
type_synonym inst_ref = nat

text \<open>
  The listeners are closures in the source; each constructor names one of them, with
  the instance it closes over.
\<close>

datatype Listener =
    OnContentPortMessage inst_ref
  | OnBridgePortMessage inst_ref
  | OnDisconnect inst_ref
  | BackgroundBridgeDisconnect inst_ref
  | BackgroundBridgeMessage inst_ref
  | BackgroundContentMessage inst_ref
  | RegistryBridgeMessage
  | RegistryBridgeDisconnect

text \<open>
  A port object of the browser, as far as the managers use it: whether it is still
  connected, the listeners registered on its two events, the sender identity a
  content port carries, and whether it is an in-process \<^verbatim>\<open>MessagePort\<close>.
\<close>

record PortState =
  connected :: bool
  onMessage_listeners :: "Listener list"
  onDisconnect_listeners :: "Listener list"
  sender_tab_id :: "int option"
  sender_frameId :: "int option"
  isMessagePort :: bool

record CastInstance =
  bridgePort :: port_ref
  contentPort :: port_ref
  contentTabId :: "int option"
  contentFrameId :: "int option"
  appId :: "string option"

datatype Event =
    ReceiverDeviceUp ReceiverDevice
  | ReceiverDeviceDown string
  | ReceiverDeviceUpdated string "ReceiverStatus option"

datatype Script =
    ScriptCode "ReceiverSelectorMediaType option" ReceiverDevice
  | ScriptFile string

datatype error =
    InvalidPortContext
  | MissingTabFrameId
  | InstanceNotFound int "int option"
  | NoBridgeConnection
  | BridgeInfoFailed
  | ExecuteScriptRejected Script
  | InvalidURL string
  | ImportRejected

datatype TimerAction = Refresh

text \<open>
  What the managers do to the outside, in the order they do it: a message posted on
  a port, an event dispatched by the device manager, a line of the error log, a
  bridge connection opened, a timer set, a script injected into a frame, the file
  sender started, the selector closed. An effect records the call as the manager
  makes it; what the browser does with it (delivering a message, running a script,
  calling the listeners of an event) is not part of these two files.

  The handlers of the source are asynchronous. Each definition below is one handler
  run to its end; what an awaited collaborator answers is an argument of the
  definition. Opening a bridge connection is taken to succeed; a script injection, the
  \<^verbatim>\<open>URL\<close> constructor and the import of the file sender may fail, and the handler
  stops there.
\<close>

datatype Effect =
    PostMessage port_ref Message
  | DispatchEvent Event
  | LogError error
  | BridgeConnect port_ref
  | SetTimeout TimerAction nat
  | ExecuteScript int "int option" Script
  | MediaSenderInit string ReceiverDevice
  | SelectorClose

text \<open>
  The state of the background page: the port objects and instance objects (stores
  indexed by reference), the \<^verbatim>\<open>activeInstances\<close> set of the cast manager in insertion
  order, the \<^verbatim>\<open>receiverDevices\<close> map of the device manager in insertion order, its
  \<^verbatim>\<open>bridgePort\<close> (written \<open>registryPort\<close>: the instance's field has the name), and
  the effects so far.
\<close>

record world =
  ports :: "port_ref \<Rightarrow> PortState"
  nextPort :: port_ref
  instances :: "inst_ref \<Rightarrow> CastInstance"
  nextInstance :: inst_ref
  activeInstances :: "inst_ref list"
  receiverDevices :: "(string \<times> ReceiverDevice) list"
  registryPort :: "port_ref option"
  trace :: "Effect list"

definition fresh_port :: PortState where
  "fresh_port = \<lparr>connected = True, onMessage_listeners = [], onDisconnect_listeners = [],
     sender_tab_id = None, sender_frameId = None, isMessagePort = False\<rparr>"

definition no_instance :: CastInstance where
  "no_instance = \<lparr>bridgePort = 0, contentPort = 0, contentTabId = None,
     contentFrameId = None, appId = None\<rparr>"

definition init_world :: world where
  "init_world = \<lparr>ports = (\<lambda>_. fresh_port), nextPort = 0, instances = (\<lambda>_. no_instance),
     nextInstance = 0, activeInstances = [], receiverDevices = [], registryPort = None,
     trace = []\<rparr>"

subsection \<open>The operations of Map, Set and Port that the managers call\<close>

text \<open>
  A JavaScript \<^verbatim>\<open>Map\<close> keeps its keys in insertion order; \<^verbatim>\<open>set\<close> on a key that is
  present replaces the value where it stands.
\<close>

fun Map_set :: "'k \<Rightarrow> 'v \<Rightarrow> ('k \<times> 'v) list \<Rightarrow> ('k \<times> 'v) list" where
  "Map_set k v [] = [(k, v)]"
| "Map_set k v (p # ps) = (if fst p = k then (k, v) # ps else p # Map_set k v ps)"

definition Map_get :: "('k \<times> 'v) list \<Rightarrow> 'k \<Rightarrow> 'v option" where
  "Map_get m k = map_of m k"

definition Map_has :: "('k \<times> 'v) list \<Rightarrow> 'k \<Rightarrow> bool" where
  "Map_has m k = (map_of m k \<noteq> None)"

definition Map_delete :: "'k \<Rightarrow> ('k \<times> 'v) list \<Rightarrow> ('k \<times> 'v) list" where
  "Map_delete k m = filter (\<lambda>p. fst p \<noteq> k) m"

definition Map_values :: "('k \<times> 'v) list \<Rightarrow> 'v list" where
  "Map_values m = map snd m"

definition Set_add :: "'a \<Rightarrow> 'a list \<Rightarrow> 'a list" where
  "Set_add x xs = (if x \<in> set xs then xs else xs @ [x])"

definition Set_delete :: "'a \<Rightarrow> 'a list \<Rightarrow> 'a list" where
  "Set_delete x xs = filter (\<lambda>y. y \<noteq> x) xs"

definition emit :: "Effect \<Rightarrow> world \<Rightarrow> world" where
  "emit e w = w\<lparr>trace := trace w @ [e]\<rparr>"

definition postMessage :: "port_ref \<Rightarrow> Message \<Rightarrow> world \<Rightarrow> world" where
  "postMessage p m w = emit (PostMessage p m) w"

definition dispatchEvent :: "Event \<Rightarrow> world \<Rightarrow> world" where
  "dispatchEvent ev w = emit (DispatchEvent ev) w"

definition logger_error :: "error \<Rightarrow> world \<Rightarrow> world" where
  "logger_error e w = emit (LogError e) w"

definition setTimeout :: "TimerAction \<Rightarrow> nat \<Rightarrow> world \<Rightarrow> world" where
  "setTimeout a ms w = emit (SetTimeout a ms) w"

text \<open>
  \<^verbatim>\<open>port.disconnect()\<close> (and \<^verbatim>\<open>close()\<close> of a \<^verbatim>\<open>MessagePort\<close>) ends the port; it
  does nothing more on a port that has ended already, and it does not call the
  \<^verbatim>\<open>onDisconnect\<close> listeners of the end that called it.
\<close>

definition disconnect :: "port_ref \<Rightarrow> world \<Rightarrow> world" where
  "disconnect p w = w\<lparr>ports := (ports w)(p := (ports w p)\<lparr>connected := False\<rparr>)\<rparr>"

definition onMessage_addListener :: "port_ref \<Rightarrow> Listener \<Rightarrow> world \<Rightarrow> world" where
  "onMessage_addListener p l w =
     w\<lparr>ports := (ports w)(p := (ports w p)
        \<lparr>onMessage_listeners := Set_add l (onMessage_listeners (ports w p))\<rparr>)\<rparr>"

definition onMessage_removeListener :: "port_ref \<Rightarrow> Listener \<Rightarrow> world \<Rightarrow> world" where
  "onMessage_removeListener p l w =
     w\<lparr>ports := (ports w)(p := (ports w p)
        \<lparr>onMessage_listeners := Set_delete l (onMessage_listeners (ports w p))\<rparr>)\<rparr>"

definition onDisconnect_addListener :: "port_ref \<Rightarrow> Listener \<Rightarrow> world \<Rightarrow> world" where
  "onDisconnect_addListener p l w =
     w\<lparr>ports := (ports w)(p := (ports w p)
        \<lparr>onDisconnect_listeners := Set_add l (onDisconnect_listeners (ports w p))\<rparr>)\<rparr>"

text \<open>\<^verbatim>\<open>bridge.connect()\<close> returns a new port object.\<close>

definition bridge_connect :: "world \<Rightarrow> port_ref \<times> world" where
  "bridge_connect w =
     (nextPort w,
      emit (BridgeConnect (nextPort w))
        (w\<lparr>ports := (ports w)(nextPort w := fresh_port), nextPort := Suc (nextPort w)\<rparr>))"

section \<open>The device manager\<close>

definition refresh :: "world \<Rightarrow> world" where
  "refresh w =
     (let w1 = (case registryPort w of None \<Rightarrow> w | Some p \<Rightarrow> disconnect p w);
          w2 = w1\<lparr>receiverDevices := []\<rparr>;
          (p, w3) = bridge_connect w2;
          w4 = w3\<lparr>registryPort := Some p\<rparr>;
          w5 = onMessage_addListener p RegistryBridgeMessage w4;
          w6 = onDisconnect_addListener p RegistryBridgeDisconnect w5
      in postMessage p (BridgeStartDiscovery True) w6)"

definition init_registry :: "world \<Rightarrow> world" where
  "init_registry w = (if registryPort w = None then refresh w else w)"

definition getDevices :: "world \<Rightarrow> ReceiverDevice list" where
  "getDevices w = Map_values (receiverDevices w)"

definition stopReceiverApp :: "string \<Rightarrow> world \<Rightarrow> world" where
  "stopReceiverApp receiverDeviceId w =
     (case registryPort w of
        None \<Rightarrow> logger_error NoBridgeConnection w
      | Some p \<Rightarrow>
          (case Map_get (receiverDevices w) receiverDeviceId of
             Some dev \<Rightarrow> postMessage p (BridgeStopCastSession dev) w
           | None \<Rightarrow> w))"

text \<open>
  The status update of \<^verbatim>\<open>onBridgeMessage\<close>, on the device object found in the map:
  with a status already there its fields are assigned one by one, otherwise the
  incoming status becomes the status.
\<close>

definition update_status :: "ReceiverStatus \<Rightarrow> ReceiverDevice \<Rightarrow> ReceiverDevice" where
  "update_status st dev =
     (case status dev of
        Some old \<Rightarrow>
          (let s1 = old\<lparr>isActiveInput := isActiveInput st\<rparr>;
               s2 = s1\<lparr>isStandBy := isStandBy st\<rparr>;
               s3 = s2\<lparr>volume := volume st\<rparr>;
               s4 = (case applications st of
                       Some apps \<Rightarrow> s3\<lparr>applications := Some apps\<rparr>
                     | None \<Rightarrow> s3)
           in dev\<lparr>status := Some s4\<rparr>)
      | None \<Rightarrow> dev\<lparr>status := Some st\<rparr>)"

definition onBridgeMessage :: "Message \<Rightarrow> world \<Rightarrow> world" where
  "onBridgeMessage message w =
     (case message of
        MainReceiverDeviceUp deviceId deviceInfo \<Rightarrow>
          dispatchEvent (ReceiverDeviceUp deviceInfo)
            (w\<lparr>receiverDevices := Map_set deviceId deviceInfo (receiverDevices w)\<rparr>)
      | MainReceiverDeviceDown deviceId \<Rightarrow>
          dispatchEvent (ReceiverDeviceDown deviceId)
            (if Map_has (receiverDevices w) deviceId
             then w\<lparr>receiverDevices := Map_delete deviceId (receiverDevices w)\<rparr>
             else w)
      | MainReceiverDeviceStatusUpdated deviceId st \<Rightarrow>
          (case Map_get (receiverDevices w) deviceId of
             None \<Rightarrow> w
           | Some dev \<Rightarrow>
               (let dev' = update_status st dev
                in dispatchEvent (ReceiverDeviceUpdated deviceId (status dev'))
                     (w\<lparr>receiverDevices := Map_set deviceId dev' (receiverDevices w)\<rparr>)))
      | MainReceiverDeviceMediaStatusUpdated _ _ \<Rightarrow> w
      | _ \<Rightarrow> w)"

definition onBridgeDisconnect :: "world \<Rightarrow> world" where
  "onBridgeDisconnect w =
     (let w1 = fold (\<lambda>entry. dispatchEvent (ReceiverDeviceDown (dev_id (snd entry))))
                 (receiverDevices w) w;
          w2 = w1\<lparr>receiverDevices := []\<rparr>
      in setTimeout Refresh 10000 w2)"

fun run_timer :: "TimerAction \<Rightarrow> world \<Rightarrow> world" where
  "run_timer Refresh w = refresh w"

section \<open>The cast manager\<close>

text \<open>
  What the collaborators outside these files answer: the selection workflow (a
  selection, nothing when the user cancels, or a failure), whether the selector is
  open, the option \<^verbatim>\<open>receiverSelectorWaitForConnection\<close>, whether the promise of
  \<^verbatim>\<open>browser.tabs.executeScript\<close> resolves for a tab, frame and script, what
  \<^verbatim>\<open>new URL(s).href\<close> is for a string \<open>s\<close> (nothing when the constructor throws), and
  whether the import of the file sender resolves.
\<close>

datatype SelectionOutcome =
    SelectionResolved "ReceiverSelection option"
  | SelectionRejected

record collaborators =
  getSelection :: "int \<Rightarrow> int \<Rightarrow> SessionRequest \<Rightarrow> SelectionOutcome"
  selector_isOpen :: bool
  receiverSelectorWaitForConnection :: bool
  executeScript_resolves :: "int \<Rightarrow> int option \<Rightarrow> Script \<Rightarrow> bool"
  URL_href :: "string \<Rightarrow> string option"
  import_media_resolves :: bool

text \<open>
  An optional number in a condition: \<^verbatim>\<open>undefined\<close> and \<^verbatim>\<open>0\<close> are both falsy.
\<close>

definition truthy :: "int option \<Rightarrow> bool" where
  "truthy n = (n \<noteq> None \<and> n \<noteq> Some 0)"

fun getInstance_loop ::
  "(inst_ref \<Rightarrow> CastInstance) \<Rightarrow> int \<Rightarrow> int option \<Rightarrow> inst_ref list \<Rightarrow> inst_ref option" where
  "getInstance_loop objs tabId frameId [] = None"
| "getInstance_loop objs tabId frameId (r # rs) =
     (if contentTabId (objs r) = Some tabId
      then (if truthy frameId \<and> contentFrameId (objs r) \<noteq> frameId
            then getInstance_loop objs tabId frameId rs
            else Some r)
      else getInstance_loop objs tabId frameId rs)"

definition getInstance :: "world \<Rightarrow> int \<Rightarrow> int option \<Rightarrow> inst_ref option" where
  "getInstance w tabId frameId =
     getInstance_loop (instances w) tabId frameId (activeInstances w)"

text \<open>An object literal: a new instance object in the store.\<close>

definition new_instance :: "CastInstance \<Rightarrow> world \<Rightarrow> inst_ref \<times> world" where
  "new_instance i w =
     (nextInstance w,
      w\<lparr>instances := (instances w)(nextInstance w := i),
        nextInstance := Suc (nextInstance w)\<rparr>)"

definition createInstanceFromBackground :: "port_ref \<Rightarrow> world \<Rightarrow> inst_ref \<times> world" where
  "createInstanceFromBackground cp w =
     (let (bp, w1) = bridge_connect w;
          (r, w2) = new_instance \<lparr>bridgePort = bp, contentPort = cp, contentTabId = None,
                      contentFrameId = None, appId = None\<rparr> w1;
          w3 = onDisconnect_addListener bp (BackgroundBridgeDisconnect r) w2;
          w4 = onMessage_addListener bp (BackgroundBridgeMessage r) w3;
          w5 = onMessage_addListener cp (BackgroundContentMessage r) w4
      in (r, w5))"

text \<open>
  The loop of \<^verbatim>\<open>createInstanceFromContent\<close> over the active instances, before the
  bridge connection of the new instance is awaited.
\<close>

definition disconnect_if_at :: "int \<Rightarrow> int \<Rightarrow> inst_ref \<Rightarrow> world \<Rightarrow> world" where
  "disconnect_if_at tabId frameId r w =
     (if contentTabId (instances w r) = Some tabId
         \<and> contentFrameId (instances w r) = Some frameId
      then disconnect (bridgePort (instances w r)) w
      else w)"

definition disconnect_existing :: "int \<Rightarrow> int \<Rightarrow> world \<Rightarrow> world" where
  "disconnect_existing tabId frameId w =
     fold (disconnect_if_at tabId frameId) (activeInstances w) w"

text \<open>
  The rest of \<^verbatim>\<open>createInstanceFromContent\<close>, from the awaited bridge connection on:
  the instance object and the four listeners.
\<close>

definition connect_content_instance ::
  "port_ref \<Rightarrow> int \<Rightarrow> int \<Rightarrow> world \<Rightarrow> inst_ref \<times> world" where
  "connect_content_instance cp tabId frameId w =
     (let (bp, w1) = bridge_connect w;
          (r, w2) = new_instance \<lparr>bridgePort = bp, contentPort = cp,
                      contentTabId = Some tabId, contentFrameId = Some frameId,
                      appId = None\<rparr> w1;
          w3 = onDisconnect_addListener bp (OnDisconnect r) w2;
          w4 = onMessage_addListener bp (OnBridgePortMessage r) w3;
          w5 = onDisconnect_addListener cp (OnDisconnect r) w4;
          w6 = onMessage_addListener cp (OnContentPortMessage r) w5
      in (r, w6))"

definition createInstanceFromContent ::
  "port_ref \<Rightarrow> world \<Rightarrow> (error \<times> world) + (inst_ref \<times> world)" where
  "createInstanceFromContent cp w =
     (case sender_tab_id (ports w cp) of
        None \<Rightarrow> Inl (InvalidPortContext, logger_error InvalidPortContext w)
      | Some tabId \<Rightarrow>
          (case sender_frameId (ports w cp) of
             None \<Rightarrow> Inl (InvalidPortContext, logger_error InvalidPortContext w)
           | Some frameId \<Rightarrow>
               Inr (connect_content_instance cp tabId frameId
                      (disconnect_existing tabId frameId w))))"

text \<open>
  \<^verbatim>\<open>createInstance\<close>; \<open>info\<close> is what \<^verbatim>\<open>bridge.getInfo()\<close> answers, \<open>None\<close> when it
  fails.
\<close>

definition createInstance ::
  "BridgeInfo option \<Rightarrow> port_ref \<Rightarrow> world \<Rightarrow> (error \<times> world) + (inst_ref \<times> world)" where
  "createInstance info port w =
     (case (if isMessagePort (ports w port)
            then Inr (createInstanceFromBackground port w)
            else createInstanceFromContent port w) of
        Inl failure \<Rightarrow> Inl failure
      | Inr (r, w1) \<Rightarrow>
          (let w2 = w1\<lparr>activeInstances := Set_add r (activeInstances w1)\<rparr>
           in case info of
                None \<Rightarrow> Inl (BridgeInfoFailed, w2)
              | Some i \<Rightarrow>
                  Inr (r, postMessage (contentPort (instances w2 r)) (CastInitialized i) w2)))"

text \<open>The closure \<^verbatim>\<open>onDisconnect\<close> of \<^verbatim>\<open>createInstanceFromContent\<close>, for the instance \<open>r\<close>.\<close>

definition onDisconnect :: "inst_ref \<Rightarrow> world \<Rightarrow> world" where
  "onDisconnect r w =
     (let bp = bridgePort (instances w r);
          cp = contentPort (instances w r);
          w1 = onMessage_removeListener bp (OnBridgePortMessage r) w;
          w2 = onMessage_removeListener cp (OnContentPortMessage r) w1;
          w3 = disconnect bp w2;
          w4 = disconnect cp w3
      in w4\<lparr>activeInstances := Set_delete r (activeInstances w4)\<rparr>)"

text \<open>The bridge-side disconnect listener of \<^verbatim>\<open>createInstanceFromBackground\<close>.\<close>

definition onBackgroundBridgeDisconnect :: "inst_ref \<Rightarrow> world \<Rightarrow> world" where
  "onBackgroundBridgeDisconnect r w =
     (let w1 = disconnect (contentPort (instances w r)) w
      in w1\<lparr>activeInstances := Set_delete r (activeInstances w1)\<rparr>)"

text \<open>
  The browser reporting that the other end of port \<open>p\<close> has gone: the port has ended,
  and its \<^verbatim>\<open>onDisconnect\<close> listeners run in the order they were added.
\<close>

fun run_disconnect_listener :: "Listener \<Rightarrow> world \<Rightarrow> world" where
  "run_disconnect_listener (OnDisconnect r) w = onDisconnect r w"
| "run_disconnect_listener (BackgroundBridgeDisconnect r) w = onBackgroundBridgeDisconnect r w"
| "run_disconnect_listener RegistryBridgeDisconnect w = onBridgeDisconnect w"
| "run_disconnect_listener _ w = w"

definition port_disconnected :: "port_ref \<Rightarrow> world \<Rightarrow> world" where
  "port_disconnected p w =
     fold run_disconnect_listener (onDisconnect_listeners (ports w p)) (disconnect p w)"

subsection \<open>Sender activation\<close>

text \<open>
  The two injections of the Tab and Screen case: the second is made only after the
  first has resolved.
\<close>

definition load_mirroring ::
  "collaborators \<Rightarrow> int \<Rightarrow> int option \<Rightarrow> ReceiverSelection \<Rightarrow> world
     \<Rightarrow> (error \<times> world) + world" where
  "load_mirroring x tabId frameId sel w =
     (let code = ScriptCode (mediaType sel) (receiverDevice sel);
          w1 = emit (ExecuteScript tabId frameId code) w
      in if \<not> executeScript_resolves x tabId frameId code
         then Inl (ExecuteScriptRejected code, w1)
         else
           (let file = ScriptFile ''cast/senders/mirroring.js'';
                w2 = emit (ExecuteScript tabId frameId file) w1
            in if \<not> executeScript_resolves x tabId frameId file
               then Inl (ExecuteScriptRejected file, w2)
               else Inr w2))"

text \<open>
  The template literal \<^verbatim>\<open>`file://${opts.selection.filePath}`\<close>: a missing path is
  written \<^verbatim>\<open>undefined\<close>.
\<close>

definition file_url_text :: "ReceiverSelection \<Rightarrow> string" where
  "file_url_text sel =
     ''file://'' @ (case filePath sel of None \<Rightarrow> ''undefined'' | Some path \<Rightarrow> path)"

definition loadSender ::
  "collaborators \<Rightarrow> int \<Rightarrow> int option \<Rightarrow> ReceiverSelection option \<Rightarrow> world
     \<Rightarrow> (error \<times> world) + world" where
  "loadSender x tabId frameId selection w =
     (case selection of
        None \<Rightarrow> Inr w
      | Some sel \<Rightarrow>
          if actionType sel \<noteq> Cast then Inr w
          else
            (case mediaType sel of
               Some App \<Rightarrow>
                 (case getInstance w tabId frameId of
                    None \<Rightarrow>
                      Inl (InstanceNotFound tabId frameId,
                           logger_error (InstanceNotFound tabId frameId) w)
                  | Some r \<Rightarrow>
                      Inr (postMessage (contentPort (instances w r))
                             (CastLaunchApp (receiverDevice sel)) w))
             | Some Tab \<Rightarrow> load_mirroring x tabId frameId sel w
             | Some Screen \<Rightarrow> load_mirroring x tabId frameId sel w
             | Some File \<Rightarrow>
                 (case URL_href x (file_url_text sel) of
                    None \<Rightarrow> Inl (InvalidURL (file_url_text sel), w)
                  | Some href \<Rightarrow>
                      if \<not> import_media_resolves x then Inl (ImportRejected, w)
                      else Inr (emit (MediaSenderInit href (receiverDevice sel)) w))
             | None \<Rightarrow> Inr w))"

subsection \<open>Routing of the messages of a content port\<close>

text \<open>\<^verbatim>\<open>String.prototype.split\<close> on a one-character separator.\<close>

fun String_split :: "char \<Rightarrow> string \<Rightarrow> string list" where
  "String_split sep [] = [[]]"
| "String_split sep (c # cs) =
     (if c = sep then [] # String_split sep cs
      else (case String_split sep cs of
              [] \<Rightarrow> [[c]]
            | part # parts \<Rightarrow> (c # part) # parts))"

text \<open>\<^verbatim>\<open>const [destination] = message.subject.split(":")\<close>\<close>

definition destination :: "string \<Rightarrow> string" where
  "destination subj = (case String_split CHR '':'' subj of [] \<Rightarrow> [] | d # _ \<Rightarrow> d)"

text \<open>
  \<^verbatim>\<open>handleContentMessage\<close>. The call of \<^verbatim>\<open>loadSender\<close> is not awaited, so a failure
  of it does not reach the handler; a failure of the selection workflow is caught.
\<close>

definition handleContentMessage ::
  "collaborators \<Rightarrow> inst_ref \<Rightarrow> Message \<Rightarrow> world \<Rightarrow> (error \<times> world) + world" where
  "handleContentMessage x r message w =
     (let w1 = (if destination (subject message) = ''bridge''
                then postMessage (bridgePort (instances w r)) message w
                else w)
      in case message of
           MainInitializeCast a \<Rightarrow>
             (let w2 = w1\<lparr>instances := (instances w1)(r := (instances w1 r)\<lparr>appId := Some a\<rparr>)\<rparr>
              in Inr (fold (\<lambda>dev. postMessage (contentPort (instances w2 r))
                                    (CastReceiverDeviceUp dev))
                        (getDevices w2) w2))
         | MainSelectReceiver sessionRequest \<Rightarrow>
             (case contentTabId (instances w1 r) of
                None \<Rightarrow> Inl (MissingTabFrameId, logger_error MissingTabFrameId w1)
              | Some tabId \<Rightarrow>
                  (case contentFrameId (instances w1 r) of
                     None \<Rightarrow> Inl (MissingTabFrameId, logger_error MissingTabFrameId w1)
                   | Some frameId \<Rightarrow>
                       (case getSelection x tabId frameId sessionRequest of
                          SelectionRejected \<Rightarrow>
                            Inr (postMessage (contentPort (instances w1 r))
                                   CastSelectReceiverCancelled w1)
                        | SelectionResolved None \<Rightarrow>
                            Inr (postMessage (contentPort (instances w1 r))
                                   CastSelectReceiverCancelled w1)
                        | SelectionResolved (Some selection) \<Rightarrow>
                            (case actionType selection of
                               Cast \<Rightarrow>
                                 if mediaType selection \<noteq> Some App
                                 then
                                   (let w2 = postMessage (contentPort (instances w1 r))
                                               CastSelectReceiverCancelled w1
                                    in case loadSender x tabId (Some frameId) (Some selection) w2 of
                                         Inl (e, w3) \<Rightarrow> Inr w3
                                       | Inr w3 \<Rightarrow> Inr w3)
                                 else
                                   Inr (postMessage (contentPort (instances w1 r))
                                          (CastSelectReceiverSelected selection) w1)
                             | Stop \<Rightarrow>
                                 Inr (postMessage (contentPort (instances w1 r))
                                        (CastSelectReceiverStopped selection) w1)))))
         | MainCloseReceiverSelector \<Rightarrow>
             Inr (if selector_isOpen x \<and> receiverSelectorWaitForConnection x
                  then emit SelectorClose w1
                  else w1)
         | _ \<Rightarrow> Inr w1)"

section \<open>The properties, as the specification words them\<close>

subsection \<open>Replaying the merge rules of the device table\<close>

datatype DeviceEvent =
    DeviceUp string ReceiverDevice
  | DeviceDown string
  | DeviceStatusUpdated string ReceiverStatus

fun to_message :: "DeviceEvent \<Rightarrow> Message" where
  "to_message (DeviceUp k d) = MainReceiverDeviceUp k d"
| "to_message (DeviceDown k) = MainReceiverDeviceDown k"
| "to_message (DeviceStatusUpdated k st) = MainReceiverDeviceStatusUpdated k st"

definition apply_events :: "DeviceEvent list \<Rightarrow> world \<Rightarrow> world" where
  "apply_events evs w = fold (\<lambda>e. onBridgeMessage (to_message e)) evs w"

text \<open>
  The merge rule in the specification's words: the three scalar fields come from the
  update, the applications come from the update when it provides them and are kept
  otherwise.
\<close>

definition spec_merge :: "ReceiverStatus option \<Rightarrow> ReceiverStatus \<Rightarrow> ReceiverStatus" where
  "spec_merge stored upd =
     \<lparr>isActiveInput = isActiveInput upd, isStandBy = isStandBy upd, volume = volume upd,
      applications = (case applications upd of
                        Some apps \<Rightarrow> Some apps
                      | None \<Rightarrow> (case stored of None \<Rightarrow> None | Some s \<Rightarrow> applications s))\<rparr>"

fun spec_apply ::
  "DeviceEvent \<Rightarrow> (string \<rightharpoonup> ReceiverDevice) \<Rightarrow> (string \<rightharpoonup> ReceiverDevice)" where
  "spec_apply (DeviceUp k d) m = m(k \<mapsto> d)"
| "spec_apply (DeviceDown k) m = m(k := None)"
| "spec_apply (DeviceStatusUpdated k st) m =
     (case m k of
        None \<Rightarrow> m
      | Some d \<Rightarrow> m(k \<mapsto> d\<lparr>status := Some (spec_merge (status d) st)\<rparr>))"

definition spec_replay :: "DeviceEvent list \<Rightarrow> (string \<rightharpoonup> ReceiverDevice)" where
  "spec_replay evs = fold spec_apply evs Map.empty"

subsection \<open>Reading the effects\<close>

definition logged_errors :: "world \<Rightarrow> error list" where
  "logged_errors w = concat (map (\<lambda>e. case e of LogError x \<Rightarrow> [x] | _ \<Rightarrow> []) (trace w))"

definition launchApp_posts :: "Effect list \<Rightarrow> Effect list" where
  "launchApp_posts es =
     filter (\<lambda>e. case e of PostMessage p (CastLaunchApp d) \<Rightarrow> True | _ \<Rightarrow> False) es"

text \<open>
  What sender activation does for a selection that is not an app selection: for Tab
  and Screen the snippet is injected and, once that injection has resolved, the
  mirroring bundle; for File a local-file URL is made from the file path and, when that
  is a URL and the file sender could be imported, the file sender is started with it.
\<close>

definition activation_effects ::
  "collaborators \<Rightarrow> int \<Rightarrow> int option \<Rightarrow> ReceiverSelection \<Rightarrow> Effect list" where
  "activation_effects x tabId frameId sel =
     (case mediaType sel of
        Some Tab \<Rightarrow>
          ExecuteScript tabId frameId (ScriptCode (Some Tab) (receiverDevice sel))
          # (if executeScript_resolves x tabId frameId (ScriptCode (Some Tab) (receiverDevice sel))
             then [ExecuteScript tabId frameId (ScriptFile ''cast/senders/mirroring.js'')]
             else [])
      | Some Screen \<Rightarrow>
          ExecuteScript tabId frameId (ScriptCode (Some Screen) (receiverDevice sel))
          # (if executeScript_resolves x tabId frameId (ScriptCode (Some Screen) (receiverDevice sel))
             then [ExecuteScript tabId frameId (ScriptFile ''cast/senders/mirroring.js'')]
             else [])
      | Some File \<Rightarrow>
          (case URL_href x (file_url_text sel) of
             None \<Rightarrow> []
           | Some href \<Rightarrow>
               if import_media_resolves x then [MediaSenderInit href (receiverDevice sel)]
               else [])
      | _ \<Rightarrow> [])"

definition outcome_world :: "(error \<times> world) + world \<Rightarrow> world" where
  "outcome_world res = (case res of Inl (e, w) \<Rightarrow> w | Inr w \<Rightarrow> w)"

subsection \<open>Finding an instance\<close>

text \<open>
  The lookup as the specification words it: the live instance whose recorded tab id
  and frame id are the given pair.
\<close>

definition instance_at :: "world \<Rightarrow> int \<Rightarrow> int option \<Rightarrow> inst_ref option" where
  "instance_at w tabId frameId =
     find (\<lambda>r. contentTabId (instances w r) = Some tabId
               \<and> contentFrameId (instances w r) = frameId)
       (activeInstances w)"

text \<open>The lookup with an optional frame id: without one, the frame is not compared.\<close>

definition matches_tab_frame :: "CastInstance \<Rightarrow> int \<Rightarrow> int option \<Rightarrow> bool" where
  "matches_tab_frame i tabId frameId =
     (contentTabId i = Some tabId \<and> (frameId = None \<or> contentFrameId i = frameId))"

definition live_identities :: "world \<Rightarrow> (int option \<times> int option) list" where
  "live_identities w =
     map (\<lambda>r. (contentTabId (instances w r), contentFrameId (instances w r)))
       (activeInstances w)"

section \<open>Example states\<close>

definition tv :: ReceiverDevice where
  "tv = \<lparr>dev_id = ''tv'', dev_info = ''Living room'', status = None\<rparr>"

definition idle_status :: ReceiverStatus where
  "idle_status = \<lparr>isActiveInput = Some False, isStandBy = Some True, volume = ''0.5'',
     applications = None\<rparr>"

definition busy_status :: ReceiverStatus where
  "busy_status = \<lparr>isActiveInput = Some True, isStandBy = Some False, volume = ''0.8'',
     applications = Some [''player'']\<rparr>"

text \<open>The device manager after \<^verbatim>\<open>init\<close> and one device found.\<close>

definition registry_world :: world where
  "registry_world = onBridgeMessage (MainReceiverDeviceUp ''tv'' tv) (refresh init_world)"

definition content_port :: "int \<Rightarrow> int \<Rightarrow> PortState" where
  "content_port t f = fresh_port\<lparr>sender_tab_id := Some t, sender_frameId := Some f\<rparr>"

definition world_after :: "(error \<times> world) + (inst_ref \<times> world) \<Rightarrow> world" where
  "world_after res = (case res of Inl (e, w) \<Rightarrow> w | Inr (r, w) \<Rightarrow> w)"

text \<open>
  Two content ports, both from frame 5 of tab 1, connect one after the other: the
  cast manager creates an instance for the first, then for the second.
\<close>

definition two_ports_world :: world where
  "two_ports_world =
     init_world\<lparr>ports := (\<lambda>_. fresh_port)(0 := content_port 1 5, 1 := content_port 1 5),
       nextPort := 2\<rparr>"

definition one_instance_world :: world where
  "one_instance_world = world_after (createInstance (Some ''info'') 0 two_ports_world)"

definition two_instances_world :: world where
  "two_instances_world = world_after (createInstance (Some ''info'') 1 one_instance_world)"

text \<open>The first of them, after the device manager has reported one device.\<close>

definition device_instance_world :: world where
  "device_instance_world = onBridgeMessage (MainReceiverDeviceUp ''tv'' tv) one_instance_world"

definition app_selection :: ReceiverSelection where
  "app_selection = \<lparr>actionType = Cast, mediaType = Some App, receiverDevice = tv,
     filePath = None\<rparr>"

definition tab_selection :: ReceiverSelection where
  "tab_selection = \<lparr>actionType = Cast, mediaType = Some Tab, receiverDevice = tv,
     filePath = None\<rparr>"

definition stop_selection :: ReceiverSelection where
  "stop_selection = \<lparr>actionType = Stop, mediaType = None, receiverDevice = tv,
     filePath = None\<rparr>"

definition file_selection :: "string \<Rightarrow> ReceiverSelection" where
  "file_selection path = \<lparr>actionType = Cast, mediaType = Some File, receiverDevice = tv,
     filePath = Some path\<rparr>"

text \<open>
  A browser in which every injection resolves and the file sender can be imported;
  of the two strings given to the \<^verbatim>\<open>URL\<close> constructor below, the first is a URL and
  the second is not (its host would have a space).
\<close>

definition example_href :: "string \<Rightarrow> string option" where
  "example_href s =
     (if s = ''file:///home/me/my movie.mp4'' then Some ''file:///home/me/my%20movie.mp4''
      else None)"

definition tab_collaborators :: collaborators where
  "tab_collaborators =
     \<lparr>getSelection = (\<lambda>_ _ _. SelectionResolved (Some tab_selection)), selector_isOpen = False,
      receiverSelectorWaitForConnection = False,
      executeScript_resolves = (\<lambda>_ _ _. True), URL_href = example_href,
      import_media_resolves = True\<rparr>"

text \<open>The same, but the browser refuses every injection.\<close>

definition refusing_collaborators :: collaborators where
  "refusing_collaborators = tab_collaborators\<lparr>executeScript_resolves := (\<lambda>_ _ _. False)\<rparr>"

text \<open>The same as the first, but the workflow selects the file at \<open>path\<close>.\<close>

definition file_collaborators :: "string \<Rightarrow> collaborators" where
  "file_collaborators path =
     tab_collaborators\<lparr>getSelection := (\<lambda>_ _ _. SelectionResolved (Some (file_selection path)))\<rparr>"

section \<open>Facts about Map, Set and the effects\<close>

lemma map_of_Map_set: "map_of (Map_set k v m) = (map_of m)(k \<mapsto> v)"
  by (induction m) (auto simp: fun_upd_twist)

lemma keys_Map_set: "set (map fst (Map_set k v m)) = insert k (set (map fst m))"
  by (induction m) auto

lemma distinct_Map_set: "distinct (map fst m) \<Longrightarrow> distinct (map fst (Map_set k v m))"
  by (induction m) (auto simp: keys_Map_set[simplified])

lemma map_of_Map_delete: "map_of (Map_delete k m) = (map_of m)(k := None)"
  by (induction m) (auto simp: Map_delete_def)

lemma distinct_Map_delete: "distinct (map fst m) \<Longrightarrow> distinct (map fst (Map_delete k m))"
  by (simp add: Map_delete_def distinct_map_filter)

lemma Map_get_Map_set: "Map_get (Map_set k v m) k = Some v"
  by (simp add: Map_get_def map_of_Map_set)

lemma fold_emit: "fold (\<lambda>x. emit (f x)) xs w = w\<lparr>trace := trace w @ map f xs\<rparr>"
  by (induction xs arbitrary: w) (auto simp: emit_def)

lemma dispatchEvent_eta: "dispatchEvent ev = emit (DispatchEvent ev)"
  by (rule ext) (simp add: dispatchEvent_def)

lemma postMessage_eta: "postMessage p m = emit (PostMessage p m)"
  by (rule ext) (simp add: postMessage_def)

section \<open>The device manager: theorems\<close>

lemma update_status_spec:
  "update_status st d = d\<lparr>status := Some (spec_merge (status d) st)\<rparr>"
  by (cases "status d"; cases "applications st")
     (simp_all add: update_status_def spec_merge_def Let_def)

lemma step_table:
  "map_of (receiverDevices (onBridgeMessage (to_message e) w))
   = spec_apply e (map_of (receiverDevices w))"
  by (cases e)
     (auto simp: onBridgeMessage_def dispatchEvent_def emit_def map_of_Map_set map_of_Map_delete
        Map_has_def Map_get_def update_status_spec Let_def split: option.splits)

lemma step_distinct:
  "distinct (map fst (receiverDevices w)) \<Longrightarrow>
   distinct (map fst (receiverDevices (onBridgeMessage (to_message e) w)))"
  by (cases e)
     (auto simp: onBridgeMessage_def dispatchEvent_def emit_def distinct_Map_set
        distinct_Map_delete Let_def split: option.splits)

lemma replay_from:
  "distinct (map fst (receiverDevices w)) \<Longrightarrow>
   map_of (receiverDevices (apply_events evs w)) = fold spec_apply evs (map_of (receiverDevices w))
   \<and> distinct (map fst (receiverDevices (apply_events evs w)))"
proof (induction evs arbitrary: w)
  case Nil
  then show ?case by (simp add: apply_events_def)
next
  case (Cons e evs)
  have d: "distinct (map fst (receiverDevices (onBridgeMessage (to_message e) w)))"
    using Cons.prems by (rule step_distinct)
  from Cons.IH[OF d] show ?case
    by (simp add: apply_events_def step_table)
qed

lemma refresh_init:
  "refresh init_world =
     \<lparr>ports = (\<lambda>_. fresh_port)(0 := fresh_port\<lparr>onMessage_listeners := [RegistryBridgeMessage],
         onDisconnect_listeners := [RegistryBridgeDisconnect]\<rparr>),
      nextPort = Suc 0, instances = (\<lambda>_. no_instance), nextInstance = 0, activeInstances = [],
      receiverDevices = [], registryPort = Some 0,
      trace = [BridgeConnect 0, PostMessage 0 (BridgeStartDiscovery True)]\<rparr>"
  by (simp add: refresh_def init_world_def bridge_connect_def emit_def postMessage_def
      onMessage_addListener_def onDisconnect_addListener_def Set_add_def Let_def fresh_port_def)

lemma registry_world_fields:
  "receiverDevices registry_world = [(''tv'', tv)]"
  "registryPort registry_world = Some 0"
  "nextPort registry_world = Suc 0"
  "trace registry_world = [BridgeConnect 0, PostMessage 0 (BridgeStartDiscovery True),
                           DispatchEvent (ReceiverDeviceUp tv)]"
  by (simp_all add: registry_world_def refresh_init onBridgeMessage_def dispatchEvent_def emit_def)

text \<open>
  Claim C2. For every finite sequence of device-up, device-down and
  device-status-updated events applied to the empty device table, the table is the
  map obtained by replaying the merge rules (up stores the device under the id, down
  removes it, a status update of a known device merges the three scalar fields and
  replaces the applications only when the update has them, a status update of an
  unknown device is ignored), its keys are unique, and \<open>getDevices\<close> returns exactly
  the devices of that map.
\<close>

theorem getDevices_replays_merge_rules:
  "map_of (receiverDevices (apply_events evs init_world)) = spec_replay evs
   \<and> distinct (map fst (receiverDevices (apply_events evs init_world)))
   \<and> set (getDevices (apply_events evs init_world)) = ran (spec_replay evs)"
proof -
  have d0: "distinct (map fst (receiverDevices init_world))"
    by (simp add: init_world_def)
  have m0: "map_of (receiverDevices init_world) = Map.empty"
    by (simp add: init_world_def)
  from replay_from[OF d0, of evs] m0
  have a: "map_of (receiverDevices (apply_events evs init_world)) = spec_replay evs"
    and b: "distinct (map fst (receiverDevices (apply_events evs init_world)))"
    by (simp_all add: spec_replay_def)
  have "set (getDevices (apply_events evs init_world))
        = ran (map_of (receiverDevices (apply_events evs init_world)))"
    using b by (simp add: getDevices_def Map_values_def ran_distinct)
  with a b show ?thesis by simp
qed

theorem getDevices_replays_merge_rules_witness:
  "set (getDevices (apply_events
          [DeviceUp ''tv'' tv, DeviceStatusUpdated ''tv'' busy_status,
           DeviceStatusUpdated ''tv'' idle_status, DeviceStatusUpdated ''radio'' idle_status,
           DeviceDown ''radio''] init_world))
   = {tv\<lparr>status := Some (idle_status\<lparr>applications := Some [''player'']\<rparr>)\<rparr>}"
proof -
  have "spec_replay [DeviceUp ''tv'' tv, DeviceStatusUpdated ''tv'' busy_status,
           DeviceStatusUpdated ''tv'' idle_status, DeviceStatusUpdated ''radio'' idle_status,
           DeviceDown ''radio'']
        = [''tv'' \<mapsto> tv\<lparr>status := Some (idle_status\<lparr>applications := Some [''player'']\<rparr>)\<rparr>]"
    by (simp add: spec_replay_def spec_merge_def tv_def busy_status_def idle_status_def)
  with getDevices_replays_merge_rules
         [of "[DeviceUp ''tv'' tv, DeviceStatusUpdated ''tv'' busy_status,
               DeviceStatusUpdated ''tv'' idle_status, DeviceStatusUpdated ''radio'' idle_status,
               DeviceDown ''radio'']"]
  show ?thesis by simp
qed

text \<open>
  Claim C4. When the upstream bridge port of the device manager disconnects, one
  \<open>receiverDeviceDown\<close> event is dispatched for each device of the table, carrying
  that device's id, each exactly once; the table is empty afterwards; one timer of
  10000 ms is set, whose action is \<open>refresh\<close>. That \<open>refresh\<close> opens exactly one new
  bridge port, registers the two listeners on it, makes it the upstream port, posts
  \<open>bridge:startDiscovery\<close> with \<open>shouldWatchStatus\<close> on it, leaves the table empty and
  has ended the port that was the upstream port before.
\<close>

theorem bridge_disconnect_clears_and_reconnects:
  "trace (onBridgeDisconnect w)
     = trace w @ map (\<lambda>d. DispatchEvent (ReceiverDeviceDown (dev_id d))) (getDevices w)
         @ [SetTimeout Refresh 10000]
   \<and> receiverDevices (onBridgeDisconnect w) = []
   \<and> run_timer Refresh (onBridgeDisconnect w) = refresh (onBridgeDisconnect w)
   \<and> trace (refresh (onBridgeDisconnect w))
     = trace (onBridgeDisconnect w)
         @ [BridgeConnect (nextPort w), PostMessage (nextPort w) (BridgeStartDiscovery True)]
   \<and> receiverDevices (refresh (onBridgeDisconnect w)) = []
   \<and> registryPort (refresh (onBridgeDisconnect w)) = Some (nextPort w)
   \<and> nextPort (refresh (onBridgeDisconnect w)) = Suc (nextPort w)
   \<and> ports (refresh (onBridgeDisconnect w)) (nextPort w)
     = fresh_port\<lparr>onMessage_listeners := [RegistryBridgeMessage],
         onDisconnect_listeners := [RegistryBridgeDisconnect]\<rparr>
   \<and> (registryPort w = Some p \<and> p < nextPort w
        \<longrightarrow> \<not> connected (ports (refresh (onBridgeDisconnect w)) p))"
proof -
  have od: "onBridgeDisconnect w
     = w\<lparr>receiverDevices := [],
         trace := trace w @ map (\<lambda>d. DispatchEvent (ReceiverDeviceDown (dev_id d))) (getDevices w)
               @ [SetTimeout Refresh 10000]\<rparr>"
    by (simp add: onBridgeDisconnect_def dispatchEvent_eta setTimeout_def fold_emit
        emit_def getDevices_def Map_values_def Let_def comp_def)
  show ?thesis
    unfolding od
    by (cases "registryPort w")
       (simp_all add: refresh_def bridge_connect_def emit_def postMessage_def disconnect_def
          onMessage_addListener_def onDisconnect_addListener_def Set_add_def Let_def
          fresh_port_def)
qed

theorem bridge_disconnect_clears_and_reconnects_witness:
  "registryPort registry_world = Some 0 \<and> (0::nat) < nextPort registry_world
   \<and> trace (onBridgeDisconnect registry_world)
     = trace registry_world @ [DispatchEvent (ReceiverDeviceDown ''tv''), SetTimeout Refresh 10000]
   \<and> receiverDevices (onBridgeDisconnect registry_world) = []
   \<and> registryPort (refresh (onBridgeDisconnect registry_world)) = Some 1
   \<and> \<not> connected (ports (refresh (onBridgeDisconnect registry_world)) 0)"
  using bridge_disconnect_clears_and_reconnects[where w=registry_world and p=0]
  by (simp add: registry_world_fields getDevices_def Map_values_def tv_def)

text \<open>
  Claim C9, as the code has it. \<open>stopReceiverApp\<close> with an upstream port and a known
  device posts \<open>bridge:stopCastSession\<close> carrying that device on the upstream port;
  with an upstream port and an unknown device id it changes nothing at all (nothing is
  posted and nothing is logged); without an upstream port it logs an error and posts
  nothing. The device table is the same afterwards in every case.
\<close>

theorem stopReceiverApp_effects:
  "(case registryPort w of
      None \<Rightarrow> stopReceiverApp k w = w\<lparr>trace := trace w @ [LogError NoBridgeConnection]\<rparr>
    | Some p \<Rightarrow>
        (case Map_get (receiverDevices w) k of
           None \<Rightarrow> stopReceiverApp k w = w
         | Some d \<Rightarrow>
             stopReceiverApp k w
             = w\<lparr>trace := trace w @ [PostMessage p (BridgeStopCastSession d)]\<rparr>))
   \<and> receiverDevices (stopReceiverApp k w) = receiverDevices w"
  by (simp add: stopReceiverApp_def logger_error_def postMessage_def emit_def
      split: option.splits)

theorem stopReceiverApp_effects_witness:
  "stopReceiverApp ''tv'' registry_world
     = registry_world\<lparr>trace := trace registry_world @ [PostMessage 0 (BridgeStopCastSession tv)]\<rparr>
   \<and> stopReceiverApp ''radio'' registry_world = registry_world
   \<and> stopReceiverApp ''tv'' init_world
     = init_world\<lparr>trace := trace init_world @ [LogError NoBridgeConnection]\<rparr>"
  using stopReceiverApp_effects[where w=registry_world and k="''tv''"]
    stopReceiverApp_effects[where w=registry_world and k="''radio''"]
    stopReceiverApp_effects[where w=init_world and k="''tv''"]
  by (simp add: registry_world_fields Map_get_def init_world_def)

text \<open>
  Claim C9 as stated fails: with the upstream port open and the device id \<open>radio\<close>
  not in the table, \<open>stopReceiverApp\<close> returns the state unchanged, and the error
  log has no entry.
\<close>

theorem stopReceiverApp_unknown_device_logs_nothing:
  "registryPort registry_world = Some 0
   \<and> Map_get (receiverDevices registry_world) ''radio'' = None
   \<and> logged_errors (stopReceiverApp ''radio'' registry_world) = []
   \<and> trace (stopReceiverApp ''radio'' registry_world) = trace registry_world"
  by (simp add: registry_world_fields stopReceiverApp_def Map_get_def logged_errors_def)

text \<open>
  Claim C10. A status update for a known device that has no status yet stores the
  incoming status as it is (so a status without applications leaves the device
  without applications), at the place the device has in the table, and the
  \<open>receiverDeviceUpdated\<close> event carries that stored status.
\<close>

theorem status_update_on_absent_status:
  assumes "Map_get (receiverDevices w) deviceId = Some d" and "status d = None"
  shows "receiverDevices (onBridgeMessage (MainReceiverDeviceStatusUpdated deviceId st) w)
           = Map_set deviceId (d\<lparr>status := Some st\<rparr>) (receiverDevices w)
         \<and> Map_get (receiverDevices
                      (onBridgeMessage (MainReceiverDeviceStatusUpdated deviceId st) w)) deviceId
           = Some (d\<lparr>status := Some st\<rparr>)
         \<and> trace (onBridgeMessage (MainReceiverDeviceStatusUpdated deviceId st) w)
           = trace w @ [DispatchEvent (ReceiverDeviceUpdated deviceId (Some st))]"
  using assms
  by (simp add: onBridgeMessage_def update_status_def dispatchEvent_def emit_def
      Map_get_Map_set Let_def)

theorem status_update_on_absent_status_witness:
  "Map_get (receiverDevices registry_world) ''tv'' = Some tv \<and> status tv = None
   \<and> receiverDevices (onBridgeMessage (MainReceiverDeviceStatusUpdated ''tv'' idle_status)
                        registry_world)
     = [(''tv'', tv\<lparr>status := Some idle_status\<rparr>)]
   \<and> applications idle_status = None
   \<and> trace (onBridgeMessage (MainReceiverDeviceStatusUpdated ''tv'' idle_status) registry_world)
     = trace registry_world @ [DispatchEvent (ReceiverDeviceUpdated ''tv'' (Some idle_status))]"
proof -
  have h: "Map_get (receiverDevices registry_world) ''tv'' = Some tv" "status tv = None"
    by (simp_all add: registry_world_fields Map_get_def tv_def)
  from status_update_on_absent_status[OF h, where st=idle_status] h show ?thesis
    by (simp add: registry_world_fields idle_status_def)
qed

section \<open>Facts about the port and instance operations\<close>

lemma emit_fields:
  "ports (emit e w) = ports w"
  "nextPort (emit e w) = nextPort w"
  "instances (emit e w) = instances w"
  "nextInstance (emit e w) = nextInstance w"
  "activeInstances (emit e w) = activeInstances w"
  "receiverDevices (emit e w) = receiverDevices w"
  "registryPort (emit e w) = registryPort w"
  "trace (emit e w) = trace w @ [e]"
  by (simp_all add: emit_def)

lemma disconnect_fields:
  "nextPort (disconnect p w) = nextPort w"
  "instances (disconnect p w) = instances w"
  "nextInstance (disconnect p w) = nextInstance w"
  "activeInstances (disconnect p w) = activeInstances w"
  "receiverDevices (disconnect p w) = receiverDevices w"
  "registryPort (disconnect p w) = registryPort w"
  "trace (disconnect p w) = trace w"
  "connected (ports (disconnect p w) q) = (q \<noteq> p \<and> connected (ports w q))"
  "onMessage_listeners (ports (disconnect p w) q) = onMessage_listeners (ports w q)"
  "onDisconnect_listeners (ports (disconnect p w) q) = onDisconnect_listeners (ports w q)"
  "sender_tab_id (ports (disconnect p w) q) = sender_tab_id (ports w q)"
  "sender_frameId (ports (disconnect p w) q) = sender_frameId (ports w q)"
  "isMessagePort (ports (disconnect p w) q) = isMessagePort (ports w q)"
  by (simp_all add: disconnect_def)

lemma onMessage_addListener_fields:
  "nextPort (onMessage_addListener p l w) = nextPort w"
  "instances (onMessage_addListener p l w) = instances w"
  "nextInstance (onMessage_addListener p l w) = nextInstance w"
  "activeInstances (onMessage_addListener p l w) = activeInstances w"
  "receiverDevices (onMessage_addListener p l w) = receiverDevices w"
  "registryPort (onMessage_addListener p l w) = registryPort w"
  "trace (onMessage_addListener p l w) = trace w"
  "connected (ports (onMessage_addListener p l w) q) = connected (ports w q)"
  "onMessage_listeners (ports (onMessage_addListener p l w) q)
     = (if q = p then Set_add l (onMessage_listeners (ports w q))
        else onMessage_listeners (ports w q))"
  "onDisconnect_listeners (ports (onMessage_addListener p l w) q)
     = onDisconnect_listeners (ports w q)"
  "sender_tab_id (ports (onMessage_addListener p l w) q) = sender_tab_id (ports w q)"
  "sender_frameId (ports (onMessage_addListener p l w) q) = sender_frameId (ports w q)"
  "isMessagePort (ports (onMessage_addListener p l w) q) = isMessagePort (ports w q)"
  by (simp_all add: onMessage_addListener_def)

lemma onDisconnect_addListener_fields:
  "nextPort (onDisconnect_addListener p l w) = nextPort w"
  "instances (onDisconnect_addListener p l w) = instances w"
  "nextInstance (onDisconnect_addListener p l w) = nextInstance w"
  "activeInstances (onDisconnect_addListener p l w) = activeInstances w"
  "receiverDevices (onDisconnect_addListener p l w) = receiverDevices w"
  "registryPort (onDisconnect_addListener p l w) = registryPort w"
  "trace (onDisconnect_addListener p l w) = trace w"
  "connected (ports (onDisconnect_addListener p l w) q) = connected (ports w q)"
  "onMessage_listeners (ports (onDisconnect_addListener p l w) q)
     = onMessage_listeners (ports w q)"
  "onDisconnect_listeners (ports (onDisconnect_addListener p l w) q)
     = (if q = p then Set_add l (onDisconnect_listeners (ports w q))
        else onDisconnect_listeners (ports w q))"
  "sender_tab_id (ports (onDisconnect_addListener p l w) q) = sender_tab_id (ports w q)"
  "sender_frameId (ports (onDisconnect_addListener p l w) q) = sender_frameId (ports w q)"
  "isMessagePort (ports (onDisconnect_addListener p l w) q) = isMessagePort (ports w q)"
  by (simp_all add: onDisconnect_addListener_def)

lemma bridge_connect_fields:
  "fst (bridge_connect w) = nextPort w"
  "nextPort (snd (bridge_connect w)) = Suc (nextPort w)"
  "instances (snd (bridge_connect w)) = instances w"
  "nextInstance (snd (bridge_connect w)) = nextInstance w"
  "activeInstances (snd (bridge_connect w)) = activeInstances w"
  "receiverDevices (snd (bridge_connect w)) = receiverDevices w"
  "registryPort (snd (bridge_connect w)) = registryPort w"
  "trace (snd (bridge_connect w)) = trace w @ [BridgeConnect (nextPort w)]"
  "ports (snd (bridge_connect w)) q = (if q = nextPort w then fresh_port else ports w q)"
  by (simp_all add: bridge_connect_def emit_def)

lemma new_instance_fields:
  "fst (new_instance i w) = nextInstance w"
  "ports (snd (new_instance i w)) = ports w"
  "nextPort (snd (new_instance i w)) = nextPort w"
  "instances (snd (new_instance i w)) r = (if r = nextInstance w then i else instances w r)"
  "nextInstance (snd (new_instance i w)) = Suc (nextInstance w)"
  "activeInstances (snd (new_instance i w)) = activeInstances w"
  "receiverDevices (snd (new_instance i w)) = receiverDevices w"
  "registryPort (snd (new_instance i w)) = registryPort w"
  "trace (snd (new_instance i w)) = trace w"
  by (simp_all add: new_instance_def)

lemmas prim_fields = emit_fields disconnect_fields onMessage_addListener_fields
  onDisconnect_addListener_fields bridge_connect_fields new_instance_fields

lemma fresh_port_fields:
  "connected fresh_port" "onMessage_listeners fresh_port = []"
  "onDisconnect_listeners fresh_port = []" "sender_tab_id fresh_port = None"
  "sender_frameId fresh_port = None" "\<not> isMessagePort fresh_port"
  by (simp_all add: fresh_port_def)

lemma connect_content_instance_fields:
  "fst (connect_content_instance cp t f w) = nextInstance w"
  "nextPort (snd (connect_content_instance cp t f w)) = Suc (nextPort w)"
  "nextInstance (snd (connect_content_instance cp t f w)) = Suc (nextInstance w)"
  "activeInstances (snd (connect_content_instance cp t f w)) = activeInstances w"
  "receiverDevices (snd (connect_content_instance cp t f w)) = receiverDevices w"
  "registryPort (snd (connect_content_instance cp t f w)) = registryPort w"
  "trace (snd (connect_content_instance cp t f w)) = trace w @ [BridgeConnect (nextPort w)]"
  "instances (snd (connect_content_instance cp t f w)) r
     = (if r = nextInstance w
        then \<lparr>bridgePort = nextPort w, contentPort = cp, contentTabId = Some t,
               contentFrameId = Some f, appId = None\<rparr>
        else instances w r)"
  by (simp_all add: connect_content_instance_def Let_def split_def prim_fields)

lemma connect_content_instance_ports:
  "connected (ports (snd (connect_content_instance cp t f w)) q)
     = (q = nextPort w \<or> connected (ports w q))"
  "onDisconnect_listeners (ports (snd (connect_content_instance cp t f w)) q)
     = (let l0 = (if q = nextPort w then [] else onDisconnect_listeners (ports w q));
            l1 = (if q = nextPort w then Set_add (OnDisconnect (nextInstance w)) l0 else l0)
        in if q = cp then Set_add (OnDisconnect (nextInstance w)) l1 else l1)"
  "onMessage_listeners (ports (snd (connect_content_instance cp t f w)) q)
     = (let l0 = (if q = nextPort w then [] else onMessage_listeners (ports w q));
            l1 = (if q = nextPort w then Set_add (OnBridgePortMessage (nextInstance w)) l0 else l0)
        in if q = cp then Set_add (OnContentPortMessage (nextInstance w)) l1 else l1)"
  "sender_tab_id (ports (snd (connect_content_instance cp t f w)) q)
     = (if q = nextPort w then None else sender_tab_id (ports w q))"
  "sender_frameId (ports (snd (connect_content_instance cp t f w)) q)
     = (if q = nextPort w then None else sender_frameId (ports w q))"
  "isMessagePort (ports (snd (connect_content_instance cp t f w)) q)
     = (q \<noteq> nextPort w \<and> isMessagePort (ports w q))"
  by (simp_all add: connect_content_instance_def Let_def split_def prim_fields fresh_port_fields)


lemma fold_disconnect_fields:
  "instances (fold (disconnect_if_at t f) rs w) = instances w"
  "activeInstances (fold (disconnect_if_at t f) rs w) = activeInstances w"
  "nextPort (fold (disconnect_if_at t f) rs w) = nextPort w"
  "nextInstance (fold (disconnect_if_at t f) rs w) = nextInstance w"
  "trace (fold (disconnect_if_at t f) rs w) = trace w"
  "receiverDevices (fold (disconnect_if_at t f) rs w) = receiverDevices w"
  "registryPort (fold (disconnect_if_at t f) rs w) = registryPort w"
  by (induction rs arbitrary: w) (simp_all add: disconnect_if_at_def disconnect_fields)

lemma fold_disconnect_stays:
  "\<not> connected (ports w p) \<Longrightarrow> \<not> connected (ports (fold (disconnect_if_at t f) rs w) p)"
  by (induction rs arbitrary: w) (simp_all add: disconnect_if_at_def disconnect_fields)

lemma fold_disconnect_other:
  "sender_tab_id (ports (fold (disconnect_if_at t f) rs w) p) = sender_tab_id (ports w p)"
  "sender_frameId (ports (fold (disconnect_if_at t f) rs w) p) = sender_frameId (ports w p)"
  "isMessagePort (ports (fold (disconnect_if_at t f) rs w) p) = isMessagePort (ports w p)"
  "onMessage_listeners (ports (fold (disconnect_if_at t f) rs w) p) = onMessage_listeners (ports w p)"
  "onDisconnect_listeners (ports (fold (disconnect_if_at t f) rs w) p) = onDisconnect_listeners (ports w p)"
  by (induction rs arbitrary: w) (simp_all add: disconnect_if_at_def disconnect_fields)

lemma fold_disconnect_hits:
  "r \<in> set rs \<Longrightarrow> contentTabId (instances w r) = Some t \<Longrightarrow>
   contentFrameId (instances w r) = Some f \<Longrightarrow>
   \<not> connected (ports (fold (disconnect_if_at t f) rs w) (bridgePort (instances w r)))"
proof (induction rs arbitrary: w)
  case Nil
  then show ?case by simp
next
  case (Cons a rs)
  have inst: "instances (disconnect_if_at t f a w) = instances w"
    by (simp add: disconnect_if_at_def disconnect_fields)
  show ?case
  proof (cases "a = r")
    case True
    have "\<not> connected (ports (disconnect_if_at t f a w) (bridgePort (instances w r)))"
      using True Cons.prems by (simp add: disconnect_if_at_def disconnect_fields)
    then show ?thesis by (simp add: fold_disconnect_stays)
  next
    case False
    with Cons.prems have "r \<in> set rs" by simp
    from Cons.IH[OF this, of "disconnect_if_at t f a w"] Cons.prems inst
    show ?thesis by simp
  qed
qed

lemmas disconnect_existing_fields =
  fold_disconnect_fields[where rs="activeInstances w" and w=w, folded disconnect_existing_def]
  fold_disconnect_other[where rs="activeInstances w" and w=w, folded disconnect_existing_def]
  for w

lemma createInstance_content:
  assumes "\<not> isMessagePort (ports w cp)"
      and "sender_tab_id (ports w cp) = Some t"
      and "sender_frameId (ports w cp) = Some f"
  shows "createInstance (Some info) cp w =
           Inr (nextInstance w,
                postMessage cp (CastInitialized info)
                  ((snd (connect_content_instance cp t f (disconnect_existing t f w)))
                     \<lparr>activeInstances := Set_add (nextInstance w) (activeInstances w)\<rparr>))"
  using assms
  by (simp add: createInstance_def createInstanceFromContent_def Let_def split_def
      connect_content_instance_fields disconnect_existing_fields)


lemma postMessage_fields:
  "ports (postMessage p m w) = ports w"
  "nextPort (postMessage p m w) = nextPort w"
  "instances (postMessage p m w) = instances w"
  "nextInstance (postMessage p m w) = nextInstance w"
  "activeInstances (postMessage p m w) = activeInstances w"
  "receiverDevices (postMessage p m w) = receiverDevices w"
  "registryPort (postMessage p m w) = registryPort w"
  "trace (postMessage p m w) = trace w @ [PostMessage p m]"
  by (simp_all add: postMessage_def emit_def)

section \<open>The cast manager: theorems\<close>

text \<open>
  Claim C3, as the code has it. When an instance is created for a content port from
  tab \<open>t\<close>, frame \<open>f\<close>, the creation first runs the loop over the active set and then
  opens the bridge connection of the new instance in the state the loop has left; in
  that state the bridge port of every instance recorded at \<open>(t, f)\<close> has ended. When
  \<open>createInstance\<close> returns, that port is still ended, the earlier instance is
  unchanged and still in the active set, and the new instance, with a new, connected
  bridge port, has been added to the active set: the active set is the one before
  with the new instance added.
\<close>

theorem createInstance_disconnects_existing:
  assumes "\<not> isMessagePort (ports w cp)"
      and "sender_tab_id (ports w cp) = Some t"
      and "sender_frameId (ports w cp) = Some f"
      and "old \<in> set (activeInstances w)"
      and "contentTabId (instances w old) = Some t"
      and "contentFrameId (instances w old) = Some f"
      and "bridgePort (instances w old) < nextPort w"
      and "old < nextInstance w"
  shows "createInstanceFromContent cp w
           = Inr (connect_content_instance cp t f (disconnect_existing t f w))
       \<and> \<not> connected (ports (disconnect_existing t f w) (bridgePort (instances w old)))
       \<and> (\<exists>w'. createInstance (Some info) cp w = Inr (nextInstance w, w')
               \<and> w' = postMessage cp (CastInitialized info)
                        ((snd (connect_content_instance cp t f (disconnect_existing t f w)))
                           \<lparr>activeInstances := Set_add (nextInstance w) (activeInstances w)\<rparr>)
               \<and> instances w' old = instances w old
               \<and> \<not> connected (ports w' (bridgePort (instances w old)))
               \<and> bridgePort (instances w' (nextInstance w)) = nextPort w
               \<and> connected (ports w' (nextPort w))
               \<and> activeInstances w' = Set_add (nextInstance w) (activeInstances w)
               \<and> old \<in> set (activeInstances w')
               \<and> nextInstance w \<in> set (activeInstances w'))"
proof -
  have loop: "createInstanceFromContent cp w
           = Inr (connect_content_instance cp t f (disconnect_existing t f w))"
    using assms(2,3) by (simp add: createInstanceFromContent_def)
  have dead: "\<not> connected (ports (disconnect_existing t f w) (bridgePort (instances w old)))"
    unfolding disconnect_existing_def using assms(4-6) by (rule fold_disconnect_hits)
  have rest: "\<exists>w'. createInstance (Some info) cp w = Inr (nextInstance w, w')
               \<and> w' = postMessage cp (CastInitialized info)
                        ((snd (connect_content_instance cp t f (disconnect_existing t f w)))
                           \<lparr>activeInstances := Set_add (nextInstance w) (activeInstances w)\<rparr>)
               \<and> instances w' old = instances w old
               \<and> \<not> connected (ports w' (bridgePort (instances w old)))
               \<and> bridgePort (instances w' (nextInstance w)) = nextPort w
               \<and> connected (ports w' (nextPort w))
               \<and> activeInstances w' = Set_add (nextInstance w) (activeInstances w)
               \<and> old \<in> set (activeInstances w')
               \<and> nextInstance w \<in> set (activeInstances w')"
    using assms(4,7,8) dead
    by (simp add: createInstance_content[OF assms(1-3)] postMessage_fields
        connect_content_instance_fields connect_content_instance_ports
        disconnect_existing_fields Set_add_def)
  from loop dead rest show ?thesis by blast
qed

lemma two_ports_world_fields:
  "ports two_ports_world q = (if q = 0 \<or> q = 1 then content_port 1 5 else fresh_port)"
  "nextPort two_ports_world = 2"
  "nextInstance two_ports_world = 0"
  "activeInstances two_ports_world = []"
  "trace two_ports_world = []"
  "receiverDevices two_ports_world = []"
  by (simp_all add: two_ports_world_def init_world_def)

lemma content_port_fields:
  "connected (content_port t f)" "onMessage_listeners (content_port t f) = []"
  "onDisconnect_listeners (content_port t f) = []" "sender_tab_id (content_port t f) = Some t"
  "sender_frameId (content_port t f) = Some f" "\<not> isMessagePort (content_port t f)"
  by (simp_all add: content_port_def fresh_port_def)

lemma one_instance_world_eq:
  "one_instance_world =
     postMessage 0 (CastInitialized ''info'')
       ((snd (connect_content_instance 0 1 5 (disconnect_existing 1 5 two_ports_world)))
          \<lparr>activeInstances := [0]\<rparr>)"
  by (simp add: one_instance_world_def world_after_def two_ports_world_fields content_port_fields
      createInstance_content[where t=1 and f=5] Set_add_def)

lemma one_instance_world_fields:
  "activeInstances one_instance_world = [0]"
  "nextPort one_instance_world = 3"
  "nextInstance one_instance_world = 1"
  "instances one_instance_world 0
     = \<lparr>bridgePort = 2, contentPort = 0, contentTabId = Some 1, contentFrameId = Some 5,
        appId = None\<rparr>"
  "trace one_instance_world = [BridgeConnect 2, PostMessage 0 (CastInitialized ''info'')]"
  "receiverDevices one_instance_world = []"
  by (simp_all add: one_instance_world_eq postMessage_fields connect_content_instance_fields
      disconnect_existing_fields two_ports_world_fields)

lemma one_instance_world_ports:
  "connected (ports one_instance_world 0)"
  "connected (ports one_instance_world (Suc 0))"
  "connected (ports one_instance_world 2)"
  "sender_tab_id (ports one_instance_world (Suc 0)) = Some 1"
  "sender_frameId (ports one_instance_world (Suc 0)) = Some 5"
  "\<not> isMessagePort (ports one_instance_world (Suc 0))"
  "onDisconnect_listeners (ports one_instance_world 0) = [OnDisconnect 0]"
  "onDisconnect_listeners (ports one_instance_world 2) = [OnDisconnect 0]"
  "onMessage_listeners (ports one_instance_world 0) = [OnContentPortMessage 0]"
  "onMessage_listeners (ports one_instance_world 2) = [OnBridgePortMessage 0]"
  by (simp_all add: one_instance_world_eq postMessage_fields connect_content_instance_ports
      disconnect_existing_def two_ports_world_fields content_port_fields Set_add_def Let_def)


lemma two_instances_world_eq:
  "two_instances_world =
     postMessage 1 (CastInitialized ''info'')
       ((snd (connect_content_instance 1 1 5 (disconnect_existing 1 5 one_instance_world)))
          \<lparr>activeInstances := [0, 1]\<rparr>)"
  by (simp add: two_instances_world_def world_after_def one_instance_world_fields
      one_instance_world_ports createInstance_content[where t=1 and f=5] Set_add_def)

lemma two_instances_world_fields:
  "activeInstances two_instances_world = [0, 1]"
  "nextPort two_instances_world = 4"
  "nextInstance two_instances_world = 2"
  "instances two_instances_world 0
     = \<lparr>bridgePort = 2, contentPort = 0, contentTabId = Some 1, contentFrameId = Some 5,
        appId = None\<rparr>"
  "instances two_instances_world (Suc 0)
     = \<lparr>bridgePort = 3, contentPort = 1, contentTabId = Some 1, contentFrameId = Some 5,
        appId = None\<rparr>"
  "trace two_instances_world
     = [BridgeConnect 2, PostMessage 0 (CastInitialized ''info''),
        BridgeConnect 3, PostMessage 1 (CastInitialized ''info'')]"
  by (simp_all add: two_instances_world_eq postMessage_fields connect_content_instance_fields
      disconnect_existing_fields one_instance_world_fields)

lemma two_instances_world_ports:
  "\<not> connected (ports two_instances_world 2)"
  "connected (ports two_instances_world 3)"
  "connected (ports two_instances_world 0)"
  "connected (ports two_instances_world (Suc 0))"
  by (simp_all add: two_instances_world_eq postMessage_fields connect_content_instance_ports
      disconnect_existing_def disconnect_if_at_def disconnect_fields
      one_instance_world_fields one_instance_world_ports)

text \<open>
  Claim C3 as stated fails: after two content ports from frame 5 of tab 1 have
  connected one after the other, the active set holds two instances recorded at
  \<open>(1, 5)\<close>.
\<close>

theorem two_live_instances_same_frame:
  "live_identities two_instances_world = [(Some 1, Some 5), (Some 1, Some 5)]
   \<and> activeInstances two_instances_world = [0, 1]
   \<and> \<not> distinct (live_identities two_instances_world)"
  by (simp add: live_identities_def two_instances_world_fields)

theorem createInstance_disconnects_existing_witness:
  "\<not> isMessagePort (ports one_instance_world 1)
   \<and> sender_tab_id (ports one_instance_world 1) = Some 1
   \<and> sender_frameId (ports one_instance_world 1) = Some 5
   \<and> 0 \<in> set (activeInstances one_instance_world)
   \<and> contentTabId (instances one_instance_world 0) = Some 1
   \<and> contentFrameId (instances one_instance_world 0) = Some 5
   \<and> bridgePort (instances one_instance_world 0) < nextPort one_instance_world
   \<and> (0::nat) < nextInstance one_instance_world
   \<and> \<not> connected (ports (disconnect_existing 1 5 one_instance_world)
                     (bridgePort (instances one_instance_world 0)))
   \<and> (\<exists>w'. createInstance (Some ''info'') 1 one_instance_world
               = Inr (nextInstance one_instance_world, w')
             \<and> instances w' 0 = instances one_instance_world 0
             \<and> \<not> connected (ports w' (bridgePort (instances one_instance_world 0)))
             \<and> bridgePort (instances w' (nextInstance one_instance_world))
                 = nextPort one_instance_world
             \<and> connected (ports w' (nextPort one_instance_world))
             \<and> activeInstances w'
                 = Set_add (nextInstance one_instance_world) (activeInstances one_instance_world)
             \<and> 0 \<in> set (activeInstances w')
             \<and> nextInstance one_instance_world \<in> set (activeInstances w'))"
proof -
  have h: "\<not> isMessagePort (ports one_instance_world 1)"
    "sender_tab_id (ports one_instance_world 1) = Some 1"
    "sender_frameId (ports one_instance_world 1) = Some 5"
    "0 \<in> set (activeInstances one_instance_world)"
    "contentTabId (instances one_instance_world 0) = Some 1"
    "contentFrameId (instances one_instance_world 0) = Some 5"
    "bridgePort (instances one_instance_world 0) < nextPort one_instance_world"
    "(0::nat) < nextInstance one_instance_world"
    by (simp_all add: one_instance_world_fields one_instance_world_ports)
  from createInstance_disconnects_existing[OF h, of "''info''"] h show ?thesis
    by blast
qed

lemma String_split_not_Nil: "String_split sep s \<noteq> []"
  by (induction s) (auto split: list.splits)

lemma destination_Nil: "destination [] = []"
  by (simp add: destination_def)

lemma destination_Cons:
  "destination (c # cs) = (if c = CHR '':'' then [] else c # destination cs)"
  using String_split_not_Nil[of "CHR '':''" cs]
  by (auto simp: destination_def split: list.splits)

lemma destination_takeWhile: "destination s = takeWhile (\<lambda>c. c \<noteq> CHR '':'') s"
  by (induction s) (simp_all add: destination_Nil destination_Cons)

lemma bridge_forward_only:
  assumes "destination (subject message) = ''bridge''"
  shows "handleContentMessage x r message w
         = Inr (w\<lparr>trace := trace w @ [PostMessage (bridgePort (instances w r)) message]\<rparr>)"
  using assms
  by (cases message)
     (simp_all add: handleContentMessage_def destination_Cons destination_Nil postMessage_def emit_def)

text \<open>
  Claim C5. On \<open>main:initializeCast\<close> the application id is recorded on the
  instance, and one \<open>cast:receiverDeviceUp\<close> message is posted on the content port of
  the instance for each device of the table, in table order, carrying the device as
  it is stored; nothing else changes.
\<close>

theorem initializeCast_announces_devices:
  "handleContentMessage x r (MainInitializeCast a) w
   = Inr (w\<lparr>instances := (instances w)(r := (instances w r)\<lparr>appId := Some a\<rparr>),
           trace := trace w @ map (\<lambda>d. PostMessage (contentPort (instances w r)) (CastReceiverDeviceUp d))
                               (getDevices w)\<rparr>)"
  by (simp add: handleContentMessage_def destination_Cons destination_Nil postMessage_eta fold_emit
      getDevices_def Let_def)

text \<open>
  Claim C6. When the selection workflow answers \<open>main:selectReceiver\<close> with a Cast
  selection whose media type is not App, the content port of the instance gets
  \<open>cast:selectReceiver/cancelled\<close> and then sender activation runs for the tab and
  frame of the instance, with exactly the effects of \<open>activation_effects\<close>; no
  \<open>cast:launchApp\<close> is posted. For Tab and Screen the activation is the injection of
  the snippet followed, once the browser has run that injection, by the injection of
  the mirroring bundle: two injections into the frame.
\<close>

theorem selectReceiver_media_changed:
  assumes "contentTabId (instances w r) = Some t"
      and "contentFrameId (instances w r) = Some f"
      and "getSelection x t f req = SelectionResolved (Some sel)"
      and "actionType sel = Cast"
      and "mediaType sel \<noteq> Some App"
  shows "handleContentMessage x r (MainSelectReceiver req) w
         = Inr (w\<lparr>trace := trace w
                    @ PostMessage (contentPort (instances w r)) CastSelectReceiverCancelled
                    # activation_effects x t (Some f) sel\<rparr>)
         \<and> launchApp_posts (PostMessage (contentPort (instances w r)) CastSelectReceiverCancelled
                              # activation_effects x t (Some f) sel) = []
         \<and> ((mediaType sel = Some Tab \<or> mediaType sel = Some Screen)
              \<and> executeScript_resolves x t (Some f) (ScriptCode (mediaType sel) (receiverDevice sel))
            \<longrightarrow> activation_effects x t (Some f) sel
                = [ExecuteScript t (Some f) (ScriptCode (mediaType sel) (receiverDevice sel)),
                   ExecuteScript t (Some f) (ScriptFile ''cast/senders/mirroring.js'')])"
proof (cases "mediaType sel")
  case None
  with assms show ?thesis
    by (simp add: handleContentMessage_def destination_Cons destination_Nil postMessage_def
        emit_def loadSender_def activation_effects_def launchApp_posts_def Let_def)
next
  case (Some m)
  with assms show ?thesis
    by (cases m)
       (simp_all add: handleContentMessage_def destination_Cons destination_Nil postMessage_def
          emit_def loadSender_def load_mirroring_def activation_effects_def launchApp_posts_def
          Let_def split: option.splits)
qed

lemma getInstance_loop_find:
  "frameId \<noteq> Some 0 \<Longrightarrow>
   getInstance_loop objs tabId frameId rs = find (\<lambda>r. matches_tab_frame (objs r) tabId frameId) rs"
  by (induction rs) (auto simp: matches_tab_frame_def truthy_def)

text \<open>
  Claim C7, as the code has it. \<open>loadSender\<close> does nothing without a selection or
  for a selection whose action is not Cast. For a Cast selection of media type App it
  takes the first instance of the active set recorded at the given tab and, when a
  frame id other than 0 is given, at that frame (without a frame id the frame is not
  compared); with none it logs and raises the error, otherwise it posts
  \<open>cast:launchApp\<close> with the chosen device on that instance's content port.
\<close>

theorem loadSender_app_launch:
  "loadSender x tabId frameId None w = Inr w
   \<and> (actionType sel \<noteq> Cast \<longrightarrow> loadSender x tabId frameId (Some sel) w = Inr w)
   \<and> (actionType sel = Cast \<and> mediaType sel = Some App \<and> frameId \<noteq> Some 0 \<longrightarrow>
        loadSender x tabId frameId (Some sel) w =
          (case find (\<lambda>r. matches_tab_frame (instances w r) tabId frameId) (activeInstances w) of
             None \<Rightarrow> Inl (InstanceNotFound tabId frameId,
                          w\<lparr>trace := trace w @ [LogError (InstanceNotFound tabId frameId)]\<rparr>)
           | Some r \<Rightarrow> Inr (w\<lparr>trace := trace w @ [PostMessage (contentPort (instances w r))
                                                     (CastLaunchApp (receiverDevice sel))]\<rparr>)))"
  by (simp add: loadSender_def getInstance_def getInstance_loop_find logger_error_def
      postMessage_def emit_def split: option.splits)

lemma Set_delete_idem: "Set_delete x (Set_delete x xs) = Set_delete x xs"
  by (simp add: Set_delete_def)

lemma Set_delete_not_in: "x \<notin> set (Set_delete x xs)"
  by (simp add: Set_delete_def)


lemma onDisconnect_fields:
  "instances (onDisconnect r w) = instances w"
  "activeInstances (onDisconnect r w) = Set_delete r (activeInstances w)"
  "trace (onDisconnect r w) = trace w"
  "nextPort (onDisconnect r w) = nextPort w"
  "nextInstance (onDisconnect r w) = nextInstance w"
  "receiverDevices (onDisconnect r w) = receiverDevices w"
  "registryPort (onDisconnect r w) = registryPort w"
  "world.more (onDisconnect r w) = world.more w"
  by (simp_all add: onDisconnect_def onMessage_removeListener_def disconnect_def Let_def)

lemma onDisconnect_ports:
  "ports (onDisconnect r w) q =
     (let s0 = ports w q;
          s1 = (if q = bridgePort (instances w r)
                then s0\<lparr>onMessage_listeners := Set_delete (OnBridgePortMessage r) (onMessage_listeners s0)\<rparr>
                else s0);
          s2 = (if q = contentPort (instances w r)
                then s1\<lparr>onMessage_listeners := Set_delete (OnContentPortMessage r) (onMessage_listeners s1)\<rparr>
                else s1);
          s3 = (if q = bridgePort (instances w r) then s2\<lparr>connected := False\<rparr> else s2)
      in if q = contentPort (instances w r) then s3\<lparr>connected := False\<rparr> else s3)"
  by (simp add: onDisconnect_def onMessage_removeListener_def disconnect_def Let_def)

lemma onDisconnect_idem: "onDisconnect r (onDisconnect r w) = onDisconnect r w"
proof (rule world.equality)
  show "ports (onDisconnect r (onDisconnect r w)) = ports (onDisconnect r w)"
    by (rule ext) (simp add: onDisconnect_ports onDisconnect_fields Let_def Set_delete_def cong: conj_cong)
qed (simp_all add: onDisconnect_fields Set_delete_def)

lemma teardown_state:
  "onDisconnect r (onDisconnect r w) = onDisconnect r w
   \<and> activeInstances (onDisconnect r w) = Set_delete r (activeInstances w)
   \<and> r \<notin> set (activeInstances (onDisconnect r w))
   \<and> OnBridgePortMessage r
       \<notin> set (onMessage_listeners (ports (onDisconnect r w) (bridgePort (instances w r))))
   \<and> OnContentPortMessage r
       \<notin> set (onMessage_listeners (ports (onDisconnect r w) (contentPort (instances w r))))
   \<and> \<not> connected (ports (onDisconnect r w) (bridgePort (instances w r)))
   \<and> \<not> connected (ports (onDisconnect r w) (contentPort (instances w r)))"
  by (simp add: onDisconnect_idem onDisconnect_fields onDisconnect_ports Let_def Set_delete_def)

lemma port_disconnected_teardown:
  assumes "onDisconnect_listeners (ports w p) = [OnDisconnect r]"
      and "p = bridgePort (instances w r) \<or> p = contentPort (instances w r)"
  shows "port_disconnected p w = onDisconnect r w"
proof -
  have "onDisconnect r (disconnect p w) = onDisconnect r w"
  proof (rule world.equality)
    show "ports (onDisconnect r (disconnect p w)) = ports (onDisconnect r w)"
      using assms(2)
      by (intro ext) (auto simp: onDisconnect_ports disconnect_def Let_def)
  qed (simp_all add: onDisconnect_fields disconnect_def)
  moreover have "onDisconnect_listeners (ports (disconnect p w) p) = [OnDisconnect r]"
    using assms(1) by (simp add: disconnect_def)
  ultimately show ?thesis
    using assms(1) by (simp add: port_disconnected_def disconnect_def)
qed

lemma teardown_either_order:
  assumes "onDisconnect_listeners (ports w (bridgePort (instances w r))) = [OnDisconnect r]"
      and "onDisconnect_listeners (ports w (contentPort (instances w r))) = [OnDisconnect r]"
  shows "port_disconnected (contentPort (instances w r))
           (port_disconnected (bridgePort (instances w r)) w) = onDisconnect r w
       \<and> port_disconnected (bridgePort (instances w r))
           (port_disconnected (contentPort (instances w r)) w) = onDisconnect r w"
proof -
  have l: "onDisconnect_listeners (ports (onDisconnect r w) q) = onDisconnect_listeners (ports w q)" for q
    by (simp add: onDisconnect_ports Let_def)
  have a: "port_disconnected (bridgePort (instances w r)) w = onDisconnect r w"
    using assms(1) by (simp add: port_disconnected_teardown)
  have b: "port_disconnected (contentPort (instances w r)) w = onDisconnect r w"
    using assms(2) by (simp add: port_disconnected_teardown)
  have c: "port_disconnected (contentPort (instances w r)) (onDisconnect r w)
           = onDisconnect r (onDisconnect r w)"
    using assms(2) by (intro port_disconnected_teardown) (simp_all add: l onDisconnect_fields)
  have d: "port_disconnected (bridgePort (instances w r)) (onDisconnect r w)
           = onDisconnect r (onDisconnect r w)"
    using assms(1) by (intro port_disconnected_teardown) (simp_all add: l onDisconnect_fields)
  show ?thesis by (simp add: a b c d onDisconnect_idem)
qed


lemma forward_first:
  "\<exists>rest. trace (outcome_world (handleContentMessage x r message w))
     = trace w @ (if destination (subject message) = ''bridge''
                  then [PostMessage (bridgePort (instances w r)) message] else []) @ rest"
proof (cases message)
  case (MainInitializeCast a)
  then show ?thesis
    by (simp add: handleContentMessage_def destination_Cons destination_Nil postMessage_eta
        fold_emit outcome_world_def Let_def)
next
  case (MainSelectReceiver req)
  then show ?thesis
    by (auto simp: handleContentMessage_def destination_Cons destination_Nil postMessage_def
        emit_def loadSender_def load_mirroring_def logger_error_def outcome_world_def Let_def
        split: option.splits SelectionOutcome.splits ReceiverSelectionActionType.splits
          ReceiverSelectorMediaType.splits)
next
  case MainCloseReceiverSelector
  then show ?thesis
    by (simp add: handleContentMessage_def destination_Cons destination_Nil emit_def
        outcome_world_def)
qed (simp_all add: handleContentMessage_def destination_Cons destination_Nil postMessage_def
       emit_def outcome_world_def)


lemma device_instance_world_fields:
  "instances device_instance_world = instances one_instance_world"
  "activeInstances device_instance_world = [0]"
  "receiverDevices device_instance_world = [(''tv'', tv)]"
  "trace device_instance_world = trace one_instance_world @ [DispatchEvent (ReceiverDeviceUp tv)]"
  by (simp_all add: device_instance_world_def onBridgeMessage_def dispatchEvent_def emit_def
      one_instance_world_fields)

text \<open>
  Claim C1. A message whose subject has the destination \<open>bridge\<close> is posted
  unchanged on the bridge port of the instance, and nothing else happens; for every
  message, whatever the handler does with it afterwards, the effects start with that
  forward exactly when the destination is \<open>bridge\<close>; \<open>bridge:startDiscovery\<close> is
  only forwarded.
\<close>

theorem bridge_subjects_forwarded_verbatim:
  "(destination (subject message) = ''bridge'' \<longrightarrow>
      handleContentMessage x r message w
      = Inr (w\<lparr>trace := trace w @ [PostMessage (bridgePort (instances w r)) message]\<rparr>))
   \<and> (\<exists>rest. trace (outcome_world (handleContentMessage x r message w))
         = trace w @ (if destination (subject message) = ''bridge''
                      then [PostMessage (bridgePort (instances w r)) message] else []) @ rest)
   \<and> handleContentMessage x r (BridgeStartDiscovery b) w
     = Inr (w\<lparr>trace := trace w
                  @ [PostMessage (bridgePort (instances w r)) (BridgeStartDiscovery b)]\<rparr>)"
proof -
  have "destination (subject (BridgeStartDiscovery b)) = ''bridge''"
    by (simp add: destination_Cons destination_Nil)
  then have "handleContentMessage x r (BridgeStartDiscovery b) w
     = Inr (w\<lparr>trace := trace w
                  @ [PostMessage (bridgePort (instances w r)) (BridgeStartDiscovery b)]\<rparr>)"
    by (rule bridge_forward_only)
  then show ?thesis
    using forward_first[of x r message w] by (simp add: bridge_forward_only)
qed

theorem bridge_subjects_forwarded_verbatim_witness:
  "destination (subject (BridgeCreateCastSession ''app'' tv)) = ''bridge''
   \<and> handleContentMessage tab_collaborators 0 (BridgeCreateCastSession ''app'' tv)
       one_instance_world
     = Inr (one_instance_world\<lparr>trace := trace one_instance_world
              @ [PostMessage 2 (BridgeCreateCastSession ''app'' tv)]\<rparr>)"
  using bridge_subjects_forwarded_verbatim
          [where message="BridgeCreateCastSession ''app'' tv" and x=tab_collaborators and r=0
             and w=one_instance_world]
  by (simp add: destination_Cons destination_Nil one_instance_world_fields)

theorem initializeCast_announces_devices_witness:
  "handleContentMessage tab_collaborators 0 (MainInitializeCast ''app'') device_instance_world
   = Inr (device_instance_world
           \<lparr>instances := (instances device_instance_world)
                (0 := \<lparr>bridgePort = 2, contentPort = 0, contentTabId = Some 1,
                        contentFrameId = Some 5, appId = Some ''app''\<rparr>),
             trace := trace device_instance_world @ [PostMessage 0 (CastReceiverDeviceUp tv)]\<rparr>)"
  using initializeCast_announces_devices
          [where x=tab_collaborators and r=0 and a="''app''" and w=device_instance_world]
  by (simp add: device_instance_world_fields one_instance_world_fields getDevices_def
      Map_values_def)

theorem selectReceiver_media_changed_witness:
  "contentTabId (instances one_instance_world 0) = Some 1
   \<and> contentFrameId (instances one_instance_world 0) = Some 5
   \<and> getSelection tab_collaborators 1 5 ''request'' = SelectionResolved (Some tab_selection)
   \<and> actionType tab_selection = Cast
   \<and> mediaType tab_selection \<noteq> Some App
   \<and> mediaType tab_selection = Some Tab
   \<and> executeScript_resolves tab_collaborators 1 (Some 5) (ScriptCode (Some Tab) tv)
   \<and> handleContentMessage tab_collaborators 0 (MainSelectReceiver ''request'') one_instance_world
     = Inr (one_instance_world\<lparr>trace := trace one_instance_world
              @ [PostMessage 0 CastSelectReceiverCancelled,
                 ExecuteScript 1 (Some 5) (ScriptCode (Some Tab) tv),
                 ExecuteScript 1 (Some 5) (ScriptFile ''cast/senders/mirroring.js'')]\<rparr>)"
proof -
  have h: "contentTabId (instances one_instance_world 0) = Some 1"
    "contentFrameId (instances one_instance_world 0) = Some 5"
    "getSelection tab_collaborators 1 5 ''request'' = SelectionResolved (Some tab_selection)"
    "actionType tab_selection = Cast"
    "mediaType tab_selection \<noteq> Some App"
    by (simp_all add: one_instance_world_fields tab_collaborators_def tab_selection_def)
  have e: "mediaType tab_selection = Some Tab" "receiverDevice tab_selection = tv"
    "executeScript_resolves tab_collaborators 1 (Some 5) (ScriptCode (Some Tab) tv)"
    by (simp_all add: tab_collaborators_def tab_selection_def)
  from selectReceiver_media_changed[OF h] h e show ?thesis
    by (simp add: one_instance_world_fields)
qed

text \<open>
  The same request in the other cases of sender activation: when the browser refuses
  the first injection, the second is not made; a file path that gives a URL starts the
  file sender with the \<^verbatim>\<open>href\<close> of that URL; a file path that gives no URL starts
  nothing.
\<close>

lemma selectReceiver_other_activations:
  "handleContentMessage refusing_collaborators 0 (MainSelectReceiver ''request'')
     one_instance_world
   = Inr (one_instance_world\<lparr>trace := trace one_instance_world
            @ [PostMessage 0 CastSelectReceiverCancelled,
               ExecuteScript 1 (Some 5) (ScriptCode (Some Tab) tv)]\<rparr>)"
  "handleContentMessage (file_collaborators ''/home/me/my movie.mp4'') 0
     (MainSelectReceiver ''request'') one_instance_world
   = Inr (one_instance_world\<lparr>trace := trace one_instance_world
            @ [PostMessage 0 CastSelectReceiverCancelled,
               MediaSenderInit ''file:///home/me/my%20movie.mp4'' tv]\<rparr>)"
  "handleContentMessage (file_collaborators ''my movie.mp4'') 0
     (MainSelectReceiver ''request'') one_instance_world
   = Inr (one_instance_world\<lparr>trace := trace one_instance_world
            @ [PostMessage 0 CastSelectReceiverCancelled]\<rparr>)"
  "loadSender (file_collaborators ''my movie.mp4'') 1 (Some 5)
     (Some (file_selection ''my movie.mp4'')) one_instance_world
   = Inl (InvalidURL ''file://my movie.mp4'', one_instance_world)"
  by (simp_all add: handleContentMessage_def destination_Cons destination_Nil postMessage_def
      emit_def loadSender_def load_mirroring_def file_url_text_def example_href_def
      refusing_collaborators_def file_collaborators_def tab_collaborators_def
      tab_selection_def file_selection_def one_instance_world_fields Let_def)

lemma getInstance_frame_zero_ignores_frame:
  "getInstance one_instance_world 1 (Some 0) = Some 0
   \<and> contentFrameId (instances one_instance_world 0) = Some 5"
  by (simp add: getInstance_def truthy_def one_instance_world_fields)

text \<open>
  Claim C7 as stated fails: called for tab 1 without a frame id, with the only
  instance recorded at frame 5 of tab 1, \<open>loadSender\<close> raises no error although no
  instance is recorded at that pair, and posts \<open>cast:launchApp\<close> to the instance of
  frame 5.
\<close>

theorem loadSender_without_frame_matches_any_frame:
  "instance_at one_instance_world 1 None = None
   \<and> loadSender tab_collaborators 1 None (Some app_selection) one_instance_world
     = Inr (one_instance_world\<lparr>trace := trace one_instance_world
              @ [PostMessage 0 (CastLaunchApp tv)]\<rparr>)"
  by (simp add: instance_at_def loadSender_def getInstance_def truthy_def postMessage_def
      emit_def app_selection_def one_instance_world_fields)

theorem loadSender_app_launch_witness:
  "actionType stop_selection \<noteq> Cast
   \<and> loadSender tab_collaborators 1 (Some 5) (Some stop_selection) one_instance_world
     = Inr one_instance_world
   \<and> actionType app_selection = Cast \<and> mediaType app_selection = Some App
   \<and> loadSender tab_collaborators 1 (Some 5) (Some app_selection) one_instance_world
     = Inr (one_instance_world\<lparr>trace := trace one_instance_world
              @ [PostMessage 0 (CastLaunchApp tv)]\<rparr>)
   \<and> loadSender tab_collaborators 1 (Some 7) (Some app_selection) one_instance_world
     = Inl (InstanceNotFound 1 (Some 7),
            one_instance_world\<lparr>trace := trace one_instance_world
              @ [LogError (InstanceNotFound 1 (Some 7))]\<rparr>)"
  using loadSender_app_launch[where tabId=1 and frameId="Some 5" and sel=stop_selection
          and w=one_instance_world and x=tab_collaborators]
    loadSender_app_launch[where tabId=1 and frameId="Some 5" and sel=app_selection
          and w=one_instance_world and x=tab_collaborators]
    loadSender_app_launch[where tabId=1 and frameId="Some 7" and sel=app_selection
          and w=one_instance_world and x=tab_collaborators]
  by (simp add: stop_selection_def app_selection_def matches_tab_frame_def
      one_instance_world_fields)

text \<open>
  Claim C8. The teardown of an instance removes the two message listeners, ends
  both ports and takes the instance out of the active set; run again it changes
  nothing. When it is the disconnect listener of both ports of the instance, the two
  ports disconnecting, in either order, leave the state of one teardown.
\<close>

theorem teardown_idempotent:
  "onDisconnect r (onDisconnect r w) = onDisconnect r w
   \<and> activeInstances (onDisconnect r w) = Set_delete r (activeInstances w)
   \<and> r \<notin> set (activeInstances (onDisconnect r w))
   \<and> OnBridgePortMessage r
       \<notin> set (onMessage_listeners (ports (onDisconnect r w) (bridgePort (instances w r))))
   \<and> OnContentPortMessage r
       \<notin> set (onMessage_listeners (ports (onDisconnect r w) (contentPort (instances w r))))
   \<and> \<not> connected (ports (onDisconnect r w) (bridgePort (instances w r)))
   \<and> \<not> connected (ports (onDisconnect r w) (contentPort (instances w r)))
   \<and> (onDisconnect_listeners (ports w (bridgePort (instances w r))) = [OnDisconnect r]
       \<and> onDisconnect_listeners (ports w (contentPort (instances w r))) = [OnDisconnect r]
       \<longrightarrow> port_disconnected (bridgePort (instances w r)) w = onDisconnect r w
         \<and> port_disconnected (contentPort (instances w r)) w = onDisconnect r w
         \<and> port_disconnected (contentPort (instances w r))
             (port_disconnected (bridgePort (instances w r)) w) = onDisconnect r w
         \<and> port_disconnected (bridgePort (instances w r))
             (port_disconnected (contentPort (instances w r)) w) = onDisconnect r w)"
proof -
  note st = teardown_state[of r w]
  have order:
    "onDisconnect_listeners (ports w (bridgePort (instances w r))) = [OnDisconnect r]
       \<and> onDisconnect_listeners (ports w (contentPort (instances w r))) = [OnDisconnect r]
     \<longrightarrow> port_disconnected (bridgePort (instances w r)) w = onDisconnect r w
         \<and> port_disconnected (contentPort (instances w r)) w = onDisconnect r w
         \<and> port_disconnected (contentPort (instances w r))
             (port_disconnected (bridgePort (instances w r)) w) = onDisconnect r w
         \<and> port_disconnected (bridgePort (instances w r))
             (port_disconnected (contentPort (instances w r)) w) = onDisconnect r w"
  proof (intro impI, elim conjE)
    assume b: "onDisconnect_listeners (ports w (bridgePort (instances w r))) = [OnDisconnect r]"
      and c: "onDisconnect_listeners (ports w (contentPort (instances w r))) = [OnDisconnect r]"
    have "port_disconnected (bridgePort (instances w r)) w = onDisconnect r w"
      using b by (simp add: port_disconnected_teardown)
    moreover have "port_disconnected (contentPort (instances w r)) w = onDisconnect r w"
      using c by (simp add: port_disconnected_teardown)
    moreover note teardown_either_order[OF b c]
    ultimately show "port_disconnected (bridgePort (instances w r)) w = onDisconnect r w
         \<and> port_disconnected (contentPort (instances w r)) w = onDisconnect r w
         \<and> port_disconnected (contentPort (instances w r))
             (port_disconnected (bridgePort (instances w r)) w) = onDisconnect r w
         \<and> port_disconnected (bridgePort (instances w r))
             (port_disconnected (contentPort (instances w r)) w) = onDisconnect r w"
      by blast
  qed
  from st order show ?thesis by blast
qed

theorem teardown_idempotent_witness:
  "bridgePort (instances one_instance_world 0) = 2
   \<and> contentPort (instances one_instance_world 0) = 0
   \<and> onDisconnect_listeners (ports one_instance_world 2) = [OnDisconnect 0]
   \<and> onDisconnect_listeners (ports one_instance_world 0) = [OnDisconnect 0]
   \<and> port_disconnected 0 (port_disconnected 2 one_instance_world) = onDisconnect 0 one_instance_world
   \<and> port_disconnected 2 (port_disconnected 0 one_instance_world) = onDisconnect 0 one_instance_world
   \<and> onDisconnect 0 (onDisconnect 0 one_instance_world) = onDisconnect 0 one_instance_world
   \<and> activeInstances one_instance_world = [0]
   \<and> activeInstances (onDisconnect 0 one_instance_world) = []"
proof -
  have i: "bridgePort (instances one_instance_world 0) = 2"
    "contentPort (instances one_instance_world 0) = 0"
    by (simp_all add: one_instance_world_fields)
  have l: "onDisconnect_listeners (ports one_instance_world 2) = [OnDisconnect 0]"
    "onDisconnect_listeners (ports one_instance_world 0) = [OnDisconnect 0]"
    by (simp_all add: one_instance_world_ports)
  have a: "activeInstances one_instance_world = [0]"
    "activeInstances (onDisconnect 0 one_instance_world) = []"
    by (simp_all add: onDisconnect_fields one_instance_world_fields Set_delete_def)
  note t = teardown_idempotent[where r=0 and w=one_instance_world, unfolded i]
  from t l i a show ?thesis by blast
qed

end
